theory Spec2Isabelle
  imports Main "HOL-Library.Sublist" "HOL-Library.AList"
begin

section \<open>Python string operations used by the scripts\<close>

text \<open>
  Python 2 byte strings are modelled as \<open>string\<close> (a list of bytes).
  \<open>endswith s suf\<close> is \<open>s.endswith(suf)\<close>.
\<close>

definition endswith :: "string \<Rightarrow> string \<Rightarrow> bool" where
  "endswith s suf = suffix suf s"

text \<open>
  \<open>s.replace(old, new)\<close> for a non-empty \<open>old\<close>: the occurrences are found from the
  left and do not overlap.
\<close>

function replace :: "string \<Rightarrow> string \<Rightarrow> string \<Rightarrow> string" where
  "replace old new s =
     (if s = [] \<or> old = [] then s
      else if take (length old) s = old
        then new @ replace old new (drop (length old) s)
        else hd s # replace old new (tl s))"
  by pat_completeness auto
termination
  by (relation "measure (\<lambda>(old, new, s). length s)") auto

declare replace.simps [simp del]

text \<open>\<open>s.split(sep)\<close> for a separator of one character.\<close>

fun split :: "char \<Rightarrow> string \<Rightarrow> string list" where
  "split sep [] = [[]]"
| "split sep (c # cs) =
     (if c = sep then [] # split sep cs
      else (case split sep cs of
              [] \<Rightarrow> [[c]]
            | t # ts \<Rightarrow> (c # t) # ts))"

text \<open>\<open>sep.join(tokens)\<close>.\<close>

fun join :: "string \<Rightarrow> string list \<Rightarrow> string" where
  "join sep [] = []"
| "join sep [t] = t"
| "join sep (t # u # ts) = t @ sep @ join sep (u # ts)"

text \<open>
  The slice \<open>xs[-k:]\<close> for \<open>k > 0\<close>: the last \<open>k\<close> elements, the whole list when
  it is shorter.
\<close>

definition slice_last :: "nat \<Rightarrow> 'a list \<Rightarrow> 'a list" where
  "slice_last k xs = drop (length xs - k) xs"

section \<open>The import listener: \<open>ListenImports._pretty\<close>\<close>

text \<open>
  An attribute value is a list of strings, a string, or anything else.  The
  listener is modelled on a POSIX host: \<open>os.sep\<close> is the slash and
  \<open>os.path.isabs\<close> tests for a leading slash.
\<close>

datatype entry = EList "string list" | EStr string | EOther

definition os_sep :: char where
  "os_sep = CHR ''/''"

definition isabs :: "string \<Rightarrow> bool" where
  "isabs s = (take 1 s = [os_sep])"

definition pretty :: "entry \<Rightarrow> entry" where
  "pretty e =
     (case e of
        EList xs \<Rightarrow> EStr (''['' @ join '', '' xs @ '']'')
      | EStr s \<Rightarrow>
          (if isabs s then
             (let s1 = replace ''.pyc'' ''.py'' (replace ''$py.class'' ''.py'' s);
                  tokens = split os_sep s1;
                  k = (if last tokens \<noteq> ''__init__.py'' then 1 else 2)
              in EStr (''//'' @ join ''/'' (slice_last k tokens)))
           else EStr s)
      | EOther \<Rightarrow> EOther)"

section \<open>Exceptions\<close>

text \<open>
  The exceptions the scripts can raise.  \<open>CalledProcessError rc\<close> is raised by
  \<open>subprocess.check_call\<close> on a non-zero exit code and \<open>SystemExit rc\<close> by
  \<open>sys.exit(rc)\<close>.
\<close>

datatype error =
    ValueError | TypeError | KeyError | IndexError
  | OSError | IOError | ImportError | SyntaxError | BadZipfile
  | CalledProcessError int | SystemExit int

section \<open>Regular expressions of the validation tables\<close>

text \<open>
  The patterns of \<open>VERSIONS\<close> and \<open>RELEASES\<close> all have the shape \<open>^body$\<close>.  The body
  is a regular expression, matched with derivatives.  \<open>\d\<close> on a Python 2 byte string
  is an ASCII digit.
\<close>

datatype rexp = Zero | One | Chr char | Digit | Alt rexp rexp | Times rexp rexp | Star rexp

definition is_digit :: "char \<Rightarrow> bool" where
  "is_digit c = (c \<in> set ''0123456789'')"

fun nullable :: "rexp \<Rightarrow> bool" where
  "nullable Zero = False"
| "nullable One = True"
| "nullable (Chr c) = False"
| "nullable Digit = False"
| "nullable (Alt r s) = (nullable r \<or> nullable s)"
| "nullable (Times r s) = (nullable r \<and> nullable s)"
| "nullable (Star r) = True"

fun deriv :: "char \<Rightarrow> rexp \<Rightarrow> rexp" where
  "deriv c Zero = Zero"
| "deriv c One = Zero"
| "deriv c (Chr d) = (if c = d then One else Zero)"
| "deriv c Digit = (if is_digit c then One else Zero)"
| "deriv c (Alt r s) = Alt (deriv c r) (deriv c s)"
| "deriv c (Times r s) =
     (if nullable r then Alt (Times (deriv c r) s) (deriv c s)
      else Times (deriv c r) s)"
| "deriv c (Star r) = Times (deriv c r) (Star r)"

fun matches :: "rexp \<Rightarrow> string \<Rightarrow> bool" where
  "matches r [] = nullable r"
| "matches r (c # cs) = matches (deriv c r) cs"

text \<open>
  \<open>re.compile('^body$').search(s)\<close>: without the MULTILINE flag \<open>^\<close> matches at the
  start of the string only, and \<open>$\<close> matches at the end of the string and also just
  before a newline that ends the string.
\<close>

definition search :: "rexp \<Rightarrow> string \<Rightarrow> bool" where
  "search body s =
     (matches body s \<or> (s \<noteq> [] \<and> last s = CHR 0x0A \<and> matches body (butlast s)))"

text \<open>The building blocks \<open>r+\<close>, \<open>r?\<close> and a literal word.\<close>

definition plus :: "rexp \<Rightarrow> rexp" where
  "plus r = Times r (Star r)"

definition opt :: "rexp \<Rightarrow> rexp" where
  "opt r = Alt One r"

fun word :: "string \<Rightarrow> rexp" where
  "word [] = One"
| "word (c # cs) = Times (Chr c) (word cs)"

text \<open>An item of a validation table is a compiled pattern or a plain string.\<close>

datatype item = Pattern rexp | Plain string

text \<open>\<open>VERSIONS = [re.compile('^2\.\d+(\.\d+)?$'), 'trunk', 'keep']\<close>\<close>

definition dotted_numeric :: rexp where
  "dotted_numeric =
     Times (word ''2.'') (Times (plus Digit) (opt (Times (Chr CHR ''.'') (plus Digit))))"

definition VERSIONS :: "item list" where
  "VERSIONS = [Pattern dotted_numeric, Plain ''trunk'', Plain ''keep'']"

text \<open>
  \<open>RELEASES = [re.compile('^a\d*$'), re.compile('^b\d*$'), re.compile('^rc\d*$'), 'final']\<close>
\<close>

definition RELEASES :: "item list" where
  "RELEASES =
     [Pattern (Times (word ''a'') (Star Digit)), Pattern (Times (word ''b'') (Star Digit)),
      Pattern (Times (word ''rc'') (Star Digit)), Plain ''final'']"

text \<open>
  \<open>_verify_version(given, valid)\<close>.  \<open>given\<close> is a string or \<open>None\<close> (the default
  of \<open>release_tag\<close>).  \<open>None == item\<close> is false for every item, and
  \<open>item.search(None)\<close> raises TypeError.
\<close>

fun verify_version :: "string option \<Rightarrow> item list \<Rightarrow> error + string option" where
  "verify_version given [] = Inl ValueError"
| "verify_version given (Plain s # valid) =
     (if given = Some s then Inr given else verify_version given valid)"
| "verify_version given (Pattern r # valid) =
     (case given of
        None \<Rightarrow> Inl TypeError
      | Some g \<Rightarrow> if search r g then Inr given else verify_version given valid)"

section \<open>Formatting of numbers and of the local time\<close>

text \<open>\<open>'%d' % n\<close> for a natural number.\<close>

definition digit_char :: "nat \<Rightarrow> char" where
  "digit_char d = ''0123456789'' ! d"

function str_nat :: "nat \<Rightarrow> string" where
  "str_nat n = (if n < 10 then [digit_char n] else str_nat (n div 10) @ [digit_char (n mod 10)])"
  by pat_completeness auto
termination
  by (relation "measure id") auto

declare str_nat.simps [simp del]

text \<open>\<open>'%02d' % n\<close>: padded with zeros on the left to two characters.\<close>

definition pad2 :: "nat \<Rightarrow> string" where
  "pad2 n = (let s = str_nat n in replicate (2 - length s) CHR ''0'' @ s)"

text \<open>The first six fields of \<open>time.localtime()\<close>.\<close>

record tm =
  tm_year :: nat
  tm_mon :: nat
  tm_mday :: nat
  tm_hour :: nat
  tm_min :: nat
  tm_sec :: nat

text \<open>\<open>'%d%02d%02d' % time.localtime()[:3]\<close>\<close>

definition date_stamp :: "tm \<Rightarrow> string" where
  "date_stamp t = str_nat (tm_year t) @ pad2 (tm_mon t) @ pad2 (tm_mday t)"

text \<open>\<open>'%d%02d%02d-%02d%02d%02d' % time.localtime()[:6]\<close>\<close>

definition time_stamp :: "tm \<Rightarrow> string" where
  "time_stamp t =
     str_nat (tm_year t) @ pad2 (tm_mon t) @ pad2 (tm_mday t) @ ''-'' @
     pad2 (tm_hour t) @ pad2 (tm_min t) @ pad2 (tm_sec t)"

section \<open>The file system\<close>

text \<open>
  The file system below \<open>ROOT_PATH\<close> is a tree.  A path is the list of its components
  relative to \<open>ROOT_PATH\<close>.  A node is a directory or a file; a file is a text file, a
  zip archive (its members are a tree again), the generated version module, or the
  bytecode cache of that module.
  \<open>VersionPy v r t\<close> stands for the file whose text is
  \<open>VERSION_CONTENT % {version_number: v, release_tag: r, timestamp: t}\<close>, and
  \<open>VersionPyc v r t\<close> for the bytecode that the interpreter compiles from that text.
\<close>

type_synonym path = "string list"

datatype node =
    File string
  | VersionPy string string string
  | VersionPyc string string string
  | Zip "(string \<times> node) list"
  | Dir "(string \<times> node) list"

type_synonym entries = "(string \<times> node) list"

fun is_dir :: "node \<Rightarrow> bool" where
  "is_dir (Dir es) = True"
| "is_dir n = False"

fun node_at :: "node \<Rightarrow> path \<Rightarrow> node option" where
  "node_at n [] = Some n"
| "node_at (Dir es) (x # xs) =
     (case map_of es x of None \<Rightarrow> None | Some c \<Rightarrow> node_at c xs)"
| "node_at n (x # xs) = None"

text \<open>\<open>os.path.exists\<close>, \<open>os.path.isdir\<close> and the contents of a directory.\<close>

definition exists :: "node \<Rightarrow> path \<Rightarrow> bool" where
  "exists t p = (node_at t p \<noteq> None)"

definition isdir :: "node \<Rightarrow> path \<Rightarrow> bool" where
  "isdir t p = (case node_at t p of Some n \<Rightarrow> is_dir n | None \<Rightarrow> False)"

definition entries_at :: "node \<Rightarrow> path \<Rightarrow> entries" where
  "entries_at t p = (case node_at t p of Some (Dir es) \<Rightarrow> es | _ \<Rightarrow> [])"

text \<open>
  \<open>put_at t p v\<close> stores the node \<open>v\<close> at the path \<open>p\<close>, whose parent is a directory;
  \<open>del_at t p\<close> removes the node at \<open>p\<close> with everything below it.
\<close>

fun put_at :: "node \<Rightarrow> path \<Rightarrow> node \<Rightarrow> node" where
  "put_at (Dir es) [x] v = Dir (AList.update x v es)"
| "put_at (Dir es) (x # y # ys) v =
     (case map_of es x of
        Some c \<Rightarrow> Dir (AList.update x (put_at c (y # ys) v) es)
      | None \<Rightarrow> Dir es)"
| "put_at n p v = n"

fun del_at :: "node \<Rightarrow> path \<Rightarrow> node" where
  "del_at (Dir es) [x] = Dir (AList.delete x es)"
| "del_at (Dir es) (x # y # ys) =
     (case map_of es x of
        Some c \<Rightarrow> Dir (AList.update x (del_at c (y # ys)) es)
      | None \<Rightarrow> Dir es)"
| "del_at n p = n"

text \<open>A well-formed tree has no two entries of one name in a directory.\<close>

fun wf_node :: "node \<Rightarrow> bool" where
  "wf_node (Dir es) = (distinct (map fst es) \<and> list_all (\<lambda>e. wf_node (snd e)) es)"
| "wf_node (Zip es) = (distinct (map fst es) \<and> list_all (\<lambda>e. wf_node (snd e)) es)"
| "wf_node n = True"

text \<open>The member at the path \<open>p\<close> inside the archive stored at the path \<open>z\<close>.\<close>

definition member_at :: "node \<Rightarrow> path \<Rightarrow> path \<Rightarrow> node option" where
  "member_at t z p = (case node_at t z of Some (Zip ms) \<Rightarrow> node_at (Dir ms) p | _ \<Rightarrow> None)"

text \<open>The file at a path: the node there, when it is not a directory.\<close>

definition file_at :: "node \<Rightarrow> path \<Rightarrow> node option" where
  "file_at t p = (case node_at t p of Some (Dir es) \<Rightarrow> None | r \<Rightarrow> r)"

text \<open>The file at the path \<open>p\<close> inside the archive stored at the path \<open>z\<close>.\<close>

definition member_file_at :: "node \<Rightarrow> path \<Rightarrow> path \<Rightarrow> node option" where
  "member_file_at t z p = (case node_at t z of Some (Zip ms) \<Rightarrow> file_at (Dir ms) p | _ \<Rightarrow> None)"

section \<open>The state of a run and its environment\<close>

text \<open>
  The state is the file system, the lines printed so far, and the number of times the
  clock has been read.  The environment holds what the script does not control: the
  clock, the host, the download and the external tools.  An external tool is not found
  or exits with a code; the compilers turn the contents of the staging directory into
  new contents, the archiver reads them and may write a file at the path it was given, and
  \<open>setup.py\<close> may change the whole tree.
\<close>

record state =
  fs :: node
  out :: "string list"
  clock_reads :: nat

datatype 'a run = NotFound | Exited int 'a

record env =
  root_path :: string
  nt :: bool
  localtime :: "nat \<Rightarrow> tm"
  download :: "node option"
  javac :: "entries \<Rightarrow> entries run"
  compileall :: "entries \<Rightarrow> entries run"
  jar_tool :: "entries \<Rightarrow> node option run"
  setup_py :: "string \<Rightarrow> node \<Rightarrow> int \<times> node"

type_synonym 'a action = "state \<Rightarrow> (error + 'a) \<times> state"

definition ret :: "'a \<Rightarrow> 'a action" where
  "ret x st = (Inr x, st)"

definition raise :: "error \<Rightarrow> 'a action" where
  "raise e st = (Inl e, st)"

definition bind :: "'a action \<Rightarrow> ('a \<Rightarrow> 'b action) \<Rightarrow> 'b action" where
  "bind m f st = (case m st of (Inl e, st') \<Rightarrow> (Inl e, st') | (Inr x, st') \<Rightarrow> f x st')"

definition seq :: "unit action \<Rightarrow> 'b action \<Rightarrow> 'b action" where
  "seq m k = bind m (\<lambda>_. k)"

definition print :: "string \<Rightarrow> unit action" where
  "print line st = (Inr (), st\<lparr>out := out st @ [line]\<rparr>)"

text \<open>\<open>try: m except subprocess.CalledProcessError: print(msg)\<close>\<close>

definition except_called_process_error :: "unit action \<Rightarrow> string \<Rightarrow> unit action" where
  "except_called_process_error m msg st =
     (case m st of
        (Inl (CalledProcessError rc), st') \<Rightarrow> print msg st'
      | r \<Rightarrow> r)"

text \<open>\<open>time.localtime()\<close>\<close>

definition read_localtime :: "env \<Rightarrow> tm action" where
  "read_localtime e st = (Inr (localtime e (clock_reads st)), st\<lparr>clock_reads := Suc (clock_reads st)\<rparr>)"

text \<open>The file-system calls, with the errors they raise.\<close>

definition os_mkdir :: "path \<Rightarrow> unit action" where
  "os_mkdir p st =
     (if p = [] \<or> exists (fs st) p \<or> \<not> isdir (fs st) (butlast p) then (Inl OSError, st)
      else (Inr (), st\<lparr>fs := put_at (fs st) p (Dir [])\<rparr>))"

definition rmtree :: "path \<Rightarrow> unit action" where
  "rmtree p st =
     (if p = [] \<or> \<not> isdir (fs st) p then (Inl OSError, st)
      else (Inr (), st\<lparr>fs := del_at (fs st) p\<rparr>))"

text \<open>\<open>open(p, 'w')\<close>, one \<open>write\<close> and \<open>close\<close>: the file at \<open>p\<close> becomes \<open>v\<close>.\<close>

definition write_file :: "path \<Rightarrow> node \<Rightarrow> unit action" where
  "write_file p v st =
     (if p = [] \<or> isdir (fs st) p \<or> \<not> isdir (fs st) (butlast p) then (Inl IOError, st)
      else (Inr (), st\<lparr>fs := put_at (fs st) p v\<rparr>))"

definition listdir :: "path \<Rightarrow> string list action" where
  "listdir p st =
     (if isdir (fs st) p then (Inr (map fst (entries_at (fs st) p)), st) else (Inl OSError, st))"

text \<open>\<open>os.path.join(ROOT_PATH, ...)\<close> as the string that is printed.\<close>

definition sep :: "env \<Rightarrow> string" where
  "sep e = (if nt e then [CHR 0x5C] else ''/'')"

definition abspath :: "env \<Rightarrow> path \<Rightarrow> string" where
  "abspath e p = join (sep e) (root_path e # p)"

text \<open>
  \<open>subprocess.check_call\<close>: a tool that is not found raises OSError, unless the
  command goes through the shell, which then exits with a non-zero code itself.
\<close>

definition check_call :: "bool \<Rightarrow> 'a run \<Rightarrow> error + 'a" where
  "check_call shell r =
     (case r of
        NotFound \<Rightarrow> if shell then Inl (CalledProcessError 1) else Inl OSError
      | Exited rc x \<Rightarrow> if rc = 0 then Inr x else Inl (CalledProcessError rc))"

text \<open>What a tool that ran has left behind, whatever its exit code.\<close>

definition effect_of :: "'a run \<Rightarrow> 'a option" where
  "effect_of r = (case r of NotFound \<Rightarrow> None | Exited rc x \<Rightarrow> Some x)"

section \<open>The version resolver\<close>

text \<open>The paths of the script, relative to \<open>ROOT_PATH\<close>.\<close>

definition DIST_PATH :: path where "DIST_PATH = [''dist'']"
definition BUILD_PATH :: path where "BUILD_PATH = [''build'']"
definition ROBOT_PATH :: path where "ROBOT_PATH = [''src'', ''robot'']"
definition JAVA_SRC :: path where "JAVA_SRC = [''src'', ''java'', ''org'', ''robotframework'']"
definition VERSION_PATH :: path where "VERSION_PATH = ROBOT_PATH @ [''version.py'']"
definition VERSION_PYC_PATH :: path where "VERSION_PYC_PATH = ROBOT_PATH @ [''version.pyc'']"
definition JYTHON_VERSION :: string where "JYTHON_VERSION = ''2.5.3''"

text \<open>
  The module that \<open>from version import get_version\<close> loads: the three values of the
  generated file, and \<open>get_version\<close> as \<open>VERSION_CONTENT\<close> defines it.
\<close>

record version_module =
  VERSION :: string
  RELEASE :: string
  TIMESTAMP :: string

definition get_version :: "string \<Rightarrow> version_module \<Rightarrow> string" where
  "get_version sp m = (if RELEASE m = ''final'' then VERSION m else VERSION m @ sp @ RELEASE m)"

text \<open>
  A value is written between single quotes as it is.  The literal reads back as the
  value when the value has no quote, backslash or line break; the compilation of a
  file with another value is taken to fail with a SyntaxError.
\<close>

definition literal_ok :: "string \<Rightarrow> bool" where
  "literal_ok v = (set v \<inter> {CHR 0x27, CHR 0x5C, CHR 0x0A, CHR 0x0D} = {})"

text \<open>
  The interpreter writes the bytecode of a module that it has compiled next to the
  source, as \<open>version.pyc\<close>; a failure to write is ignored.
\<close>

definition write_bytecode :: "string \<Rightarrow> string \<Rightarrow> string \<Rightarrow> state \<Rightarrow> state" where
  "write_bytecode v r t st =
     (if isdir (fs st) VERSION_PYC_PATH then st
      else st\<lparr>fs := put_at (fs st) VERSION_PYC_PATH (VersionPyc v r t)\<rparr>)"

text \<open>
  \<open>sys.path.insert(0, ROBOT_PATH)\<close> and \<open>from version import get_version\<close>, with the
  interpreter's default of writing bytecode.  When the bytecode cache is current, the
  module is loaded from it and nothing is written; the cache counts as current when
  it holds the bytecode of the present source (the interpreter compares the
  modification time that the cache records).  Otherwise the source is compiled and
  the cache is written.  Without a source the module is loaded from a cache that is
  there.  A missing module, and a source file that this script has not generated, are
  an ImportError.  A second import in one run finds the module loaded; it is modelled
  as an import again, which then finds the cache current.
\<close>

definition import_version :: "version_module action" where
  "import_version st =
     (case node_at (fs st) VERSION_PATH of
        Some (VersionPy v r t) \<Rightarrow>
          if node_at (fs st) VERSION_PYC_PATH = Some (VersionPyc v r t)
          then (Inr \<lparr>VERSION = v, RELEASE = r, TIMESTAMP = t\<rparr>, st)
          else if literal_ok v \<and> literal_ok r \<and> literal_ok t
          then (Inr \<lparr>VERSION = v, RELEASE = r, TIMESTAMP = t\<rparr>, write_bytecode v r t st)
          else (Inl SyntaxError, st)
      | Some other \<Rightarrow> (Inl ImportError, st)
      | None \<Rightarrow>
          (case node_at (fs st) VERSION_PYC_PATH of
             Some (VersionPyc v r t) \<Rightarrow> (Inr \<lparr>VERSION = v, RELEASE = r, TIMESTAMP = t\<rparr>, st)
           | _ \<Rightarrow> (Inl ImportError, st)))"

text \<open>\<open>'%s' % x\<close> for a string or \<open>None\<close>.\<close>

definition py_str :: "string option \<Rightarrow> string" where
  "py_str x = (case x of None \<Rightarrow> ''None'' | Some v \<Rightarrow> v)"

definition update_version :: "env \<Rightarrow> string \<Rightarrow> string \<Rightarrow> unit action" where
  "update_version e version_number release_tag =
     bind (read_localtime e) (\<lambda>now.
     seq (write_file VERSION_PATH (VersionPy version_number release_tag (time_stamp now)))
         (print (''Updated version to '' @ version_number @ '' '' @ release_tag)))"

definition keep_version :: "unit action" where
  "keep_version =
     bind import_version (\<lambda>m. print (''Keeping version '' @ get_version '' '' m))"

text \<open>
  \<open>version(version_number, release_tag=None)\<close>.  In the last branch the argument
  \<open>_verify_version(release_tag, RELEASES)\<close> is evaluated before \<open>_update_version\<close>
  is entered.
\<close>

definition version :: "env \<Rightarrow> string \<Rightarrow> string option \<Rightarrow> string action" where
  "version e version_number release_tag =
     (case verify_version (Some version_number) VERSIONS of
        Inl err \<Rightarrow> raise err
      | Inr _ \<Rightarrow>
          seq (if version_number = ''keep'' then keep_version
               else if version_number = ''trunk'' then
                 bind (read_localtime e) (\<lambda>now. update_version e version_number (date_stamp now))
               else
                 (case verify_version release_tag RELEASES of
                    Inl err \<Rightarrow> raise err
                  | Inr tag \<Rightarrow> update_version e version_number (py_str tag)))
              (bind import_version (\<lambda>m. ret (get_version [] m))))"

text \<open>
  \<open>version(*version_info)\<close>: one or two arguments, a TypeError for any other number.
\<close>

definition version_star :: "env \<Rightarrow> string list \<Rightarrow> string action" where
  "version_star e version_info =
     (case version_info of
        [v] \<Rightarrow> version e v None
      | [v, r] \<Rightarrow> version e v (Some r)
      | _ \<Rightarrow> raise TypeError)"

section \<open>The runtime bundler: \<open>jar\<close>\<close>

definition urlretrieve :: "env \<Rightarrow> path \<Rightarrow> unit action" where
  "urlretrieve e p = (case download e of None \<Rightarrow> raise IOError | Some v \<Rightarrow> write_file p v)"

definition get_jython_jar :: "env \<Rightarrow> path action" where
  "get_jython_jar e st =
     (let lib_dir = [''ext-lib''];
          jar_path = lib_dir @ [''jython-standalone-'' @ JYTHON_VERSION @ ''.jar''];
          dl_url = ''http://search.maven.org/remotecontent?filepath=org/python/jython-standalone/''
                   @ JYTHON_VERSION @ ''/jython-standalone-'' @ JYTHON_VERSION @ ''.jar''
      in if exists (fs st) jar_path then ret jar_path st
         else seq (\<lambda>st1. if \<not> exists (fs st1) lib_dir then os_mkdir lib_dir st1 else ret () st1)
             (seq (print (''Jython not found, going to download from '' @ dl_url))
             (seq (urlretrieve e jar_path)
                  (ret jar_path))) st)"

text \<open>
  A compiler run in a directory: what it leaves behind replaces the contents of the
  directory, and \<open>check_call\<close> turns its exit into the result.
\<close>

definition run_compiler :: "bool \<Rightarrow> (entries \<Rightarrow> entries run) \<Rightarrow> path \<Rightarrow> unit action" where
  "run_compiler shell tool dir st =
     (let r = tool (entries_at (fs st) dir);
          st' = (case effect_of r of
                   None \<Rightarrow> st
                 | Some es \<Rightarrow> st\<lparr>fs := put_at (fs st) dir (Dir es)\<rparr>)
      in (case check_call shell r of
            Inl err \<Rightarrow> (Inl err, st')
          | Inr _ \<Rightarrow> (Inr (), st')))"

definition compile_java_classes :: "env \<Rightarrow> path \<Rightarrow> path \<Rightarrow> unit action" where
  "compile_java_classes e tmpdir jython_jar =
     bind (listdir JAVA_SRC) (\<lambda>names.
       let source_files = filter (\<lambda>f. endswith f ''.java'') names
       in seq (print (''Compiling '' @ str_nat (length source_files) @ '' source files''))
              (run_compiler (nt e) (javac e) tmpdir))"

definition create_tmpdir :: "path action" where
  "create_tmpdir =
     (let tmpdir = [''tmp-jar-dir'']
      in seq (\<lambda>st. if exists (fs st) tmpdir then rmtree tmpdir st else ret () st)
        (seq (os_mkdir tmpdir)
             (ret tmpdir)))"

text \<open>
  \<open>ZipFile.extractall\<close>: the members are written over the directory, directories are
  merged.  A file in the place of a directory, or a directory in the place of a file,
  is an error (\<open>None\<close>).
\<close>

fun extract_into :: "entries \<Rightarrow> entries \<Rightarrow> entries option" where
  "extract_into [] es = Some es"
| "extract_into ((name, Dir sub) # ms) es =
     (case map_of es name of
        None \<Rightarrow>
          (case extract_into sub [] of
             None \<Rightarrow> None
           | Some new \<Rightarrow> extract_into ms (AList.update name (Dir new) es))
      | Some (Dir old) \<Rightarrow>
          (case extract_into sub old of
             None \<Rightarrow> None
           | Some new \<Rightarrow> extract_into ms (AList.update name (Dir new) es))
      | Some other \<Rightarrow> None)"
| "extract_into ((name, member) # ms) es =
     (case map_of es name of
        Some (Dir old) \<Rightarrow> None
      | _ \<Rightarrow> extract_into ms (AList.update name member es))"

text \<open>
  An extraction that fails leaves the staging directory as it was in the model; the
  script does not look at it again.
\<close>

definition unzip_jython_jar :: "path \<Rightarrow> path \<Rightarrow> unit action" where
  "unzip_jython_jar tmpdir jython_jar st =
     (case node_at (fs st) jython_jar of
        Some (Zip members) \<Rightarrow>
          (case extract_into members (entries_at (fs st) tmpdir) of
             None \<Rightarrow> (Inl OSError, st)
           | Some es \<Rightarrow> (Inr (), st\<lparr>fs := put_at (fs st) tmpdir (Dir es)\<rparr>))
      | Some (Dir es) \<Rightarrow> (Inl IOError, st)
      | Some file \<Rightarrow> (Inl BadZipfile, st)
      | None \<Rightarrow> (Inl IOError, st))"

text \<open>
  \<open>shutil.copytree(src, dst, ignore=shutil.ignore_patterns('*.pyc'))\<close>: the names
  that match are left out at every level; the match is that of a POSIX host, where
  it is case sensitive.
\<close>

fun copy_entries :: "entries \<Rightarrow> entries" where
  "copy_entries [] = []"
| "copy_entries ((name, Dir sub) # es) =
     (if endswith name ''.pyc'' then copy_entries es
      else (name, Dir (copy_entries sub)) # copy_entries es)"
| "copy_entries ((name, file) # es) =
     (if endswith name ''.pyc'' then copy_entries es
      else (name, file) # copy_entries es)"

text \<open>\<open>os.makedirs\<close> on the way to a new directory: the missing ones are created.\<close>

fun make_dirs :: "node \<Rightarrow> path \<Rightarrow> node option" where
  "make_dirs (Dir es) [] = Some (Dir es)"
| "make_dirs (Dir es) (x # xs) =
     (case make_dirs (case map_of es x of None \<Rightarrow> Dir [] | Some c \<Rightarrow> c) xs of
        None \<Rightarrow> None
      | Some c' \<Rightarrow> Some (Dir (AList.update x c' es)))"
| "make_dirs n p = None"

definition copytree :: "path \<Rightarrow> path \<Rightarrow> unit action" where
  "copytree src dst st =
     (if \<not> isdir (fs st) src \<or> exists (fs st) dst then (Inl OSError, st)
      else (case make_dirs (fs st) dst of
              None \<Rightarrow> (Inl OSError, st)
            | Some t \<Rightarrow>
                (Inr (), st\<lparr>fs := put_at t dst (Dir (copy_entries (entries_at (fs st) src)))\<rparr>)))"

definition copy_robot_files :: "path \<Rightarrow> unit action" where
  "copy_robot_files tmpdir =
     (let todir = tmpdir @ [''Lib'', ''robot'']
      in seq (copytree ROBOT_PATH todir)
             (rmtree (todir @ [''htmldata'', ''testdata''])))"

text \<open>
  The loop over \<open>os.walk(top)\<close> that removes the files whose name ends with \<open>.py\<close>.
  The walk is top-down: in each directory the loop body sees the names that are not
  directories and removes those that end with \<open>.py\<close>, and the walk then goes on into
  each subdirectory.  The walk and the loop body together are this recursion over
  the tree at the top directory.  A top that is not a directory is walked as nothing.
\<close>

fun remove_py_files :: "entries \<Rightarrow> entries" where
  "remove_py_files [] = []"
| "remove_py_files ((name, Dir sub) # es) = (name, Dir (remove_py_files sub)) # remove_py_files es"
| "remove_py_files ((name, file) # es) =
     (if endswith name ''.py'' then remove_py_files es
      else (name, file) # remove_py_files es)"

text \<open>
  What the removal loop leaves of a node called \<open>name\<close>: a directory with its own
  contents treated, a file unless its name ends with \<open>.py\<close>.
\<close>

fun after_removal :: "string \<Rightarrow> node \<Rightarrow> node option" where
  "after_removal name (Dir sub) = Some (Dir (remove_py_files sub))"
| "after_removal name file = (if endswith name ''.py'' then None else Some file)"

definition walk_remove_py :: "path \<Rightarrow> unit action" where
  "walk_remove_py dir st =
     (case node_at (fs st) dir of
        Some (Dir es) \<Rightarrow> (Inr (), st\<lparr>fs := put_at (fs st) dir (Dir (remove_py_files es))\<rparr>)
      | _ \<Rightarrow> (Inr (), st))"

definition compile_all_py_files :: "env \<Rightarrow> path \<Rightarrow> path \<Rightarrow> unit action" where
  "compile_all_py_files e tmpdir jython_jar =
     seq (run_compiler False (compileall e) tmpdir)
         (walk_remove_py (tmpdir @ [''Lib'', ''robot'']))"

definition manifest :: "string \<Rightarrow> string" where
  "manifest ver =
     ''Manifest-Version: 1.0'' @ [CHR 0x0A] @
     ''Main-Class: org.robotframework.RobotFramework'' @ [CHR 0x0A] @
     ''Specification-Version: 2'' @ [CHR 0x0A] @
     ''Implementation-Version: '' @ ver @ [CHR 0x0A]"

definition overwrite_manifest :: "path \<Rightarrow> string \<Rightarrow> unit action" where
  "overwrite_manifest tmpdir ver =
     write_file (tmpdir @ [''META-INF'', ''MANIFEST.MF'']) (File (manifest ver))"

definition fill_jar :: "env \<Rightarrow> path \<Rightarrow> path \<Rightarrow> unit action" where
  "fill_jar e sourcedir jarpath st =
     (let r = jar_tool e (entries_at (fs st) sourcedir);
          st' = (case effect_of r of
                   Some (Some v) \<Rightarrow> st\<lparr>fs := put_at (fs st) jarpath v\<rparr>
                 | _ \<Rightarrow> st)
      in (case check_call (nt e) r of
            Inl err \<Rightarrow> (Inl err, st')
          | Inr _ \<Rightarrow> (Inr (), st')))"

definition create_jar_file :: "env \<Rightarrow> path \<Rightarrow> string \<Rightarrow> path action" where
  "create_jar_file e source ver =
     (let path = DIST_PATH @ [''robotframework-'' @ ver @ ''.jar'']
      in seq (\<lambda>st. if \<not> exists (fs st) DIST_PATH then os_mkdir DIST_PATH st else ret () st)
        (seq (fill_jar e source path)
             (ret path)))"

definition jar :: "env \<Rightarrow> string list \<Rightarrow> unit action" where
  "jar e version_info =
     bind (get_jython_jar e) (\<lambda>jython_jar.
     seq (print (''Using Jython '' @ abspath e jython_jar))
    (bind (version_star e version_info) (\<lambda>ver.
     bind create_tmpdir (\<lambda>tmpdir.
     seq (except_called_process_error
            (seq (compile_java_classes e tmpdir jython_jar)
            (seq (unzip_jython_jar tmpdir jython_jar)
            (seq (copy_robot_files tmpdir)
            (seq (compile_all_py_files e tmpdir jython_jar)
            (seq (overwrite_manifest tmpdir ver)
                 (except_called_process_error
                    (bind (create_jar_file e tmpdir ver) (\<lambda>jar_path.
                       print (''Created '' @ abspath e jar_path @ '' based on ''
                              @ abspath e jython_jar)))
                    ''Unable to create jar! Check for jar command available at the command line.''))))))
            ''Unable to compile java classes! Check for javac command available at the command line.'')
         (rmtree tmpdir)))))"

section \<open>The archive builders and the dispatcher\<close>

definition clean :: "unit action" where
  "clean =
     seq (print ''Cleaning up...'')
    (seq (\<lambda>st. if exists (fs st) DIST_PATH then rmtree DIST_PATH st else ret () st)
         (\<lambda>st. if exists (fs st) BUILD_PATH then rmtree BUILD_PATH st else ret () st))"

text \<open>
  \<open>_verify_platform(version_number, release_tag=None)\<close>; \<open>os.sep\<close> is the backslash
  on the host where \<open>os.name\<close> is \<open>nt\<close>.
\<close>

definition verify_platform :: "env \<Rightarrow> string list \<Rightarrow> bool action" where
  "verify_platform e version_info =
     (case version_info of
        [v, r] \<Rightarrow>
          if r = ''final'' \<and> \<not> nt e then
            seq (print ''Final Windows installers can only be created in Windows.'')
           (seq (print ''Windows installer was not created.'')
                (ret False))
          else ret True
      | [v] \<Rightarrow> ret True
      | _ \<Rightarrow> raise TypeError)"

text \<open>\<open>name.capitalize()\<close> for the two names the script uses.\<close>

definition capitalize :: "string \<Rightarrow> string" where
  "capitalize name =
     (if name = ''source distribution'' then ''Source distribution''
      else if name = ''Windows installer'' then ''Windows installer''
      else name)"

definition create :: "env \<Rightarrow> string \<Rightarrow> string \<Rightarrow> unit action" where
  "create e command name =
     seq (print (''Creating '' @ name @ ''...''))
         (\<lambda>st. case setup_py e command (fs st) of
                  (rc, t) \<Rightarrow>
                    if rc \<noteq> 0 then
                      seq (print (''Creating '' @ name @ '' failed.'')) (raise (SystemExit rc))
                        (st\<lparr>fs := t\<rparr>)
                    else print (capitalize name @ '' created successfully.'') (st\<lparr>fs := t\<rparr>))"

definition create_sdist :: "env \<Rightarrow> unit action" where
  "create_sdist e = create e ''sdist --force-manifest'' ''source distribution''"

definition create_wininst :: "env \<Rightarrow> unit action" where
  "create_wininst e =
     seq (create e (''bdist_wininst --bitmap '' @ abspath e [''robot.bmp'']
                    @ '' --install-script robot_postinstall.py'') ''Windows installer'')
         (if \<not> nt e then
            seq (print ''Warning: Windows installers created on other platforms may not'')
                (print ''be exactly identical to ones created in Windows.'')
          else ret ())"

fun print_all :: "string list \<Rightarrow> unit action" where
  "print_all [] = ret ()"
| "print_all (l # ls) = seq (print l) (print_all ls)"

definition announce :: "env \<Rightarrow> unit action" where
  "announce e =
     seq (print ''Created:'')
         (bind (listdir DIST_PATH) (\<lambda>names.
            print_all (map (\<lambda>name. abspath e (DIST_PATH @ [name])) names)))"

definition sdist :: "env \<Rightarrow> string list \<Rightarrow> unit action" where
  "sdist e version_info =
     bind (version_star e version_info) (\<lambda>_.
     seq clean
    (seq (create_sdist e)
         (announce e)))"

definition wininst :: "env \<Rightarrow> string list \<Rightarrow> unit action" where
  "wininst e version_info =
     bind (version_star e version_info) (\<lambda>_.
     seq clean
    (bind (verify_platform e version_info) (\<lambda>ok.
       if ok then seq (create_wininst e) (announce e) else ret ())))"

definition all_packages :: "env \<Rightarrow> string list \<Rightarrow> unit action" where
  "all_packages e version_info =
     bind (version_star e version_info) (\<lambda>_.
     seq clean
    (seq (create_sdist e)
    (bind (verify_platform e version_info) (\<lambda>ok.
     seq (if ok then create_wininst e else ret ())
         (announce e)))))"

text \<open>
  The five commands of the usage text.  The script looks the command up in
  \<open>globals()\<close> and calls what it finds.  The model covers the five commands; a name
  that is no global of the script is a KeyError.  The helper functions, constants and
  imported modules of the script are globals too, and naming one of them on the
  command line calls it; such calls are outside the model, which takes these names
  for unknown ones.
\<close>

datatype command = Sdist | Wininst | All | Version | Jar

definition command_named :: "string \<Rightarrow> command option" where
  "command_named name =
     map_of [(''sdist'', Sdist), (''wininst'', Wininst), (''all'', All),
             (''version'', Version), (''jar'', Jar)] name"

fun run_command :: "env \<Rightarrow> command \<Rightarrow> string list \<Rightarrow> unit action" where
  "run_command e Sdist version_info = sdist e version_info"
| "run_command e Wininst version_info = wininst e version_info"
| "run_command e All version_info = all_packages e version_info"
| "run_command e Version version_info = bind (version_star e version_info) (\<lambda>_. ret ())"
| "run_command e Jar version_info = jar e version_info"

text \<open>
  The body of the script.  \<open>args\<close> is \<open>sys.argv[1:]\<close>.  The result is the exit code
  of the process: \<open>0\<close> when the body returns, also after one of the four exceptions
  that are caught and answered with the usage text; the code of a \<open>SystemExit\<close>, of
  which a POSIX host keeps the low eight bits; and \<open>1\<close> for any other exception, which
  leaves the script with a traceback.
\<close>

text \<open>The usage text \<open>__doc__\<close>; the model keeps its first line.\<close>

definition usage :: string where
  "usage = ''Packaging script for Robot Framework''"

definition dispatch :: "env \<Rightarrow> string list \<Rightarrow> unit action" where
  "dispatch e args =
     (case args of
        [] \<Rightarrow> raise IndexError
      | name # version_info \<Rightarrow>
          (case command_named name of
             None \<Rightarrow> raise KeyError
           | Some c \<Rightarrow> run_command e c version_info))"

definition main :: "env \<Rightarrow> string list \<Rightarrow> state \<Rightarrow> int \<times> state" where
  "main e args st =
     (case dispatch e args st of
        (Inr _, st') \<Rightarrow> (0, st')
      | (Inl KeyError, st') \<Rightarrow> (0, snd (print usage st'))
      | (Inl IndexError, st') \<Rightarrow> (0, snd (print usage st'))
      | (Inl TypeError, st') \<Rightarrow> (0, snd (print usage st'))
      | (Inl ValueError, st') \<Rightarrow> (0, snd (print usage st'))
      | (Inl (SystemExit rc), st') \<Rightarrow> (if nt e then rc else rc mod 256, st')
      | (Inl other, st') \<Rightarrow> (1, st'))"

section \<open>The date stamp as the specification words it\<close>

text \<open>
  \<open>YYYYMMDD\<close>: the four digits of the year, the two digits of the month and the two
  digits of the day.
\<close>

definition yyyymmdd :: "nat \<Rightarrow> nat \<Rightarrow> nat \<Rightarrow> string" where
  "yyyymmdd y m d =
     [digit_char (y div 1000), digit_char (y div 100 mod 10), digit_char (y div 10 mod 10),
      digit_char (y mod 10), digit_char (m div 10), digit_char (m mod 10),
      digit_char (d div 10), digit_char (d mod 10)]"

section \<open>An example project tree and environment\<close>

text \<open>
  A small project tree, a clock, a download that delivers a Jython archive, and tools
  that succeed.  The example bytecode compiler puts a \<open>$py.class\<close> file next to every
  \<open>.py\<close> file, as Jython's \<open>compileall\<close> does; the example archiver writes the archive
  of what it reads.
\<close>

definition demo_tm :: tm where
  "demo_tm = \<lparr>tm_year = 2013, tm_mon = 3, tm_mday = 7, tm_hour = 1, tm_min = 2, tm_sec = 3\<rparr>"

definition jython_members :: entries where
  "jython_members =
     [(''META-INF'', Dir [(''MANIFEST.MF'', File ''jython'')]),
      (''Lib'', Dir [(''os.py'', File ''os'')]),
      (''org'', Dir [(''python'', Dir [])])]"

fun add_classes :: "entries \<Rightarrow> entries" where
  "add_classes [] = []"
| "add_classes ((name, Dir sub) # es) = (name, Dir (add_classes sub)) # add_classes es"
| "add_classes ((name, file) # es) =
     (if endswith name ''.py''
      then (name, file) # (take (length name - 3) name @ ''$py.class'', File ''class'')
           # add_classes es
      else (name, file) # add_classes es)"

definition demo_env :: env where
  "demo_env =
     \<lparr>root_path = ''/rf'', nt = False, localtime = (\<lambda>_. demo_tm),
      download = Some (Zip jython_members),
      javac = (\<lambda>es. Exited 0
        (es @ [(''org'', Dir [(''robotframework'', Dir [(''RobotFramework.class'', File ''class'')])])])),
      compileall = (\<lambda>es. Exited 0 (add_classes es)),
      jar_tool = (\<lambda>es. Exited 0 (Some (Zip es))),
      setup_py = (\<lambda>c t. (0, t))\<rparr>"

definition demo_fs :: node where
  "demo_fs =
     Dir [(''src'',
           Dir [(''robot'',
                 Dir [(''run.py'', File ''run''), (''run.pyc'', File ''compiled''),
                      (''version.py'', VersionPy ''2.7'' ''final'' ''20120101-000000''),
                      (''htmldata'',
                       Dir [(''testdata'', Dir [(''data.py'', File ''data'')]),
                            (''model.py'', File ''model'')])]),
                (''java'',
                 Dir [(''org'',
                       Dir [(''robotframework'',
                             Dir [(''RobotFramework.java'', File ''java'')])])])])]"

definition demo_state :: state where
  "demo_state = \<lparr>fs = demo_fs, out = [], clock_reads = 0\<rparr>"

section \<open>Actions that raise no validation error\<close>

text \<open>
  An action raises no validation error when none of its results is the ValueError or
  the TypeError that \<open>_verify_version\<close> raises.
\<close>

definition no_validation_error :: "'a action \<Rightarrow> bool" where
  "no_validation_error m =
     (\<forall>st r st'. m st = (r, st') \<longrightarrow> r \<noteq> Inl ValueError \<and> r \<noteq> Inl TypeError)"

section \<open>Actions that change one top-level directory only\<close>

text \<open>
  An action is framed by the name \<open>x\<close> when it keeps the root a directory and leaves
  every path that does not start with \<open>x\<close> as it was.
\<close>

definition frame :: "string \<Rightarrow> 'a action \<Rightarrow> bool" where
  "frame x m =
     (\<forall>st r st'. m st = (r, st') \<longrightarrow>
        is_dir (fs st') = is_dir (fs st) \<and>
        (\<forall>q. q \<noteq> [] \<longrightarrow> hd q \<noteq> x \<longrightarrow> node_at (fs st') q = node_at (fs st) q))"

text \<open>The example environment with a bytecode compiler that fails.\<close>

definition failing_env :: env where
  "failing_env = demo_env\<lparr>compileall := (\<lambda>es. Exited 1 es)\<rparr>"

section \<open>Properties of the import listener\<close>

text \<open>
  Claim C9, as amended.  For an absolute path whose last component is \<open>__init__.py\<close>
  the formatter keeps the last two components (the package directory and the file name):
  \<open>/home/user/project/__init__.py\<close> is shown as \<open>//project/__init__.py\<close>.  For any
  other last component it keeps that component only, after the compiled-module suffixes
  have been rewritten to \<open>.py\<close>: \<open>/home/user/project/module$py.class\<close> is shown as
  \<open>//module.py\<close>.
\<close>

theorem pretty_absolute_paths:
  "pretty (EStr ''/home/user/project/__init__.py'') = EStr ''//project/__init__.py'' \<and>
   pretty (EStr ''/home/user/project/module$py.class'') = EStr ''//module.py''"
  by (simp add: pretty_def isabs_def os_sep_def replace.simps slice_last_def Let_def)

text \<open>
  Claim C9 as stated fails: the output for \<open>/home/user/project/__init__.py\<close> does not
  end with \<open>//home/user/project\<close>.
\<close>

theorem pretty_init_counterexample:
  "pretty (EStr ''/home/user/project/__init__.py'') = EStr ''//project/__init__.py'' \<and>
   \<not> endswith ''//project/__init__.py'' ''//home/user/project''"
  by (simp add: pretty_def isabs_def os_sep_def replace.simps slice_last_def Let_def
      endswith_def suffix_def)

section \<open>Auxiliary facts\<close>

lemmas monad_defs = bind_def seq_def ret_def raise_def print_def

lemma not_isdir_below_file: "\<not> is_dir t \<Longrightarrow> \<not> isdir t q"
  by (cases q; cases t) (auto simp: isdir_def)

lemma node_at_put_same:
  "p \<noteq> [] \<Longrightarrow> isdir t (butlast p) \<Longrightarrow> node_at (put_at t p v) p = Some v"
proof (induction t p v rule: put_at.induct)
  case (1 es x v)
  then show ?case by (simp add: update_conv')
next
  case (2 es x y ys v)
  then show ?case
    by (auto simp: isdir_def update_conv' split: option.splits)
qed (use not_isdir_below_file in \<open>fastforce+\<close>)

lemma node_at_put_other:
  "p \<noteq> [] \<Longrightarrow> q \<noteq> [] \<Longrightarrow> hd p \<noteq> hd q \<Longrightarrow> node_at (put_at t p v) q = node_at t q"
  by (cases "(t, p, v)" rule: put_at.cases; cases q)
     (auto simp: update_conv' split: option.splits)

lemma node_at_del_other:
  "p \<noteq> [] \<Longrightarrow> q \<noteq> [] \<Longrightarrow> hd p \<noteq> hd q \<Longrightarrow> node_at (del_at t p) q = node_at t q"
  by (cases "(t, p)" rule: del_at.cases; cases q)
     (auto simp: update_conv' delete_conv' split: option.splits)

lemma node_at_del_top: "node_at (del_at t [x]) (x # q) = None"
  by (cases t) (auto simp: delete_conv')

lemma is_dir_put_at: "is_dir (put_at t p v) = is_dir t"
  by (cases "(t, p, v)" rule: put_at.cases) (auto split: option.splits)

lemma is_dir_del_at: "is_dir (del_at t p) = is_dir t"
  by (cases "(t, p)" rule: del_at.cases) (auto split: option.splits)

lemma digit_char_in: "d < 10 \<Longrightarrow> digit_char d \<in> set ''0123456789''"
  unfolding digit_char_def by (rule nth_mem) simp

lemma digit_char_0: "digit_char 0 = CHR ''0''"
  by (simp add: digit_char_def)

lemma str_nat_digits: "set (str_nat n) \<subseteq> set ''0123456789''"
proof (induction n rule: str_nat.induct)
  case (1 n)
  show ?case
  proof (cases "n < 10")
    case True
    then show ?thesis using digit_char_in [of n] by (subst str_nat.simps) simp
  next
    case False
    have "digit_char (n mod 10) \<in> set ''0123456789''" by (rule digit_char_in) simp
    with False 1 show ?thesis by (subst str_nat.simps) simp
  qed
qed

lemma str_nat_nonempty: "str_nat n \<noteq> []"
  by (subst str_nat.simps) simp

lemma pad2_digits: "set (pad2 n) \<subseteq> set ''0123456789''"
  using str_nat_digits [of n] by (auto simp: pad2_def Let_def)

lemma literal_ok_digits: "set v \<subseteq> set ''0123456789-'' \<Longrightarrow> literal_ok v"
  by (auto simp: literal_ok_def)

lemma literal_ok_date_stamp: "literal_ok (date_stamp t)"
  using str_nat_digits pad2_digits
  by (intro literal_ok_digits) (fastforce simp: date_stamp_def)

lemma literal_ok_time_stamp: "literal_ok (time_stamp t)"
  using str_nat_digits pad2_digits
  by (intro literal_ok_digits) (fastforce simp: time_stamp_def)

lemma str_nat_one_digit: "n < 10 \<Longrightarrow> str_nat n = [digit_char n]"
  by (subst str_nat.simps) simp

lemma str_nat_two_digits:
  "10 \<le> n \<Longrightarrow> n < 100 \<Longrightarrow> str_nat n = [digit_char (n div 10), digit_char (n mod 10)]"
  by (subst str_nat.simps) (simp add: str_nat_one_digit)

lemma str_nat_four_digits:
  assumes "1000 \<le> n" "n \<le> 9999"
  shows "str_nat n = [digit_char (n div 1000), digit_char (n div 100 mod 10),
                      digit_char (n div 10 mod 10), digit_char (n mod 10)]"
proof -
  have a: "str_nat n = str_nat (n div 10) @ [digit_char (n mod 10)]"
    using assms by (subst str_nat.simps) simp
  have b: "str_nat (n div 10) = str_nat (n div 100) @ [digit_char (n div 10 mod 10)]"
    using assms by (subst str_nat.simps) (simp add: div_mult2_eq [symmetric])
  have c: "str_nat (n div 100) = [digit_char (n div 100 div 10), digit_char (n div 100 mod 10)]"
    using assms by (intro str_nat_two_digits) auto
  show ?thesis using a b c by (simp add: div_mult2_eq [symmetric])
qed

lemma pad2_two_digits: "n < 100 \<Longrightarrow> pad2 n = [digit_char (n div 10), digit_char (n mod 10)]"
  by (cases "n < 10") (simp_all add: pad2_def Let_def str_nat_one_digit str_nat_two_digits digit_char_0)

lemma date_stamp_yyyymmdd:
  assumes "1000 \<le> tm_year t" "tm_year t \<le> 9999" "tm_mon t \<le> 12" "tm_mday t \<le> 31"
  shows "date_stamp t = yyyymmdd (tm_year t) (tm_mon t) (tm_mday t)"
  using assms by (simp add: date_stamp_def yyyymmdd_def str_nat_four_digits pad2_two_digits)

section \<open>Facts about the file-system tree\<close>

lemma node_at_append:
  "node_at t (p @ q) = (case node_at t p of None \<Rightarrow> None | Some n \<Rightarrow> node_at n q)"
  by (induction t p rule: node_at.induct) (auto split: option.splits)

lemma node_at_single: "node_at (Dir es) [x] = map_of es x"
  by (simp split: option.splits)

lemma isdir_butlast: "node_at t p \<noteq> None \<Longrightarrow> p \<noteq> [] \<Longrightarrow> isdir t (butlast p)"
proof (induction t p rule: node_at.induct)
  case (2 es x xs)
  show ?case
  proof (cases xs)
    case Nil
    then show ?thesis by (simp add: isdir_def)
  next
    case (Cons y ys)
    then show ?thesis
      using 2 by (cases "map_of es x") (auto simp: isdir_def)
  qed
qed auto

lemma wf_node_child: "wf_node (Dir es) \<Longrightarrow> map_of es x = Some c \<Longrightarrow> wf_node c"
  by (auto simp: list_all_iff dest: map_of_SomeD)

lemma wf_node_at: "wf_node t \<Longrightarrow> node_at t p = Some n \<Longrightarrow> wf_node n"
proof (induction t p rule: node_at.induct)
  case (2 es x xs)
  then show ?case
    using wf_node_child [of es x] by (auto split: option.splits)
qed auto

lemma file_at_append:
  "file_at t (p @ q) = (case node_at t p of None \<Rightarrow> None | Some n \<Rightarrow> file_at n q)"
  by (simp add: file_at_def node_at_append split: option.splits)

lemma file_at_below_file: "\<not> is_dir n \<Longrightarrow> q \<noteq> [] \<Longrightarrow> file_at n q = None"
  by (cases n; cases q) (simp_all add: file_at_def)

lemma node_at_below_file: "\<not> is_dir n \<Longrightarrow> q \<noteq> [] \<Longrightarrow> node_at n q = None"
  by (cases n; cases q) simp_all

lemma put_leaf_other:
  "\<not> isdir t p \<Longrightarrow> \<not> is_dir v \<Longrightarrow> q \<noteq> p \<Longrightarrow>
   file_at (put_at t p v) q = file_at t q \<and> isdir (put_at t p v) q = isdir t q"
proof (induction p arbitrary: t q)
  case Nil
  then show ?case by (cases t) simp_all
next
  case (Cons x p')
  show ?case
  proof (cases t)
    case (Dir es)
    show ?thesis
    proof (cases q)
      case Nil
      then show ?thesis
        using Dir by (cases p'; cases "map_of es x") (simp_all add: file_at_def isdir_def)
    next
      case q: (Cons y ys)
      show ?thesis
      proof (cases "y = x")
        case False
        then show ?thesis
          using Dir q
          by (cases p'; cases "map_of es x") (simp_all add: file_at_def isdir_def update_conv')
      next
        case True
        show ?thesis
        proof (cases p')
          case Nil
          have ys: "ys \<noteq> []" using Cons.prems(3) q True Nil by simp
          have a: "node_at v ys = None" using Cons.prems(2) ys by (rule node_at_below_file)
          have b: "node_at t (x # ys) = None"
          proof (cases "map_of es x")
            case None
            then show ?thesis using Dir by simp
          next
            case (Some c)
            have "\<not> is_dir c" using Cons.prems(1) Dir Some Nil by (simp add: isdir_def)
            then show ?thesis using Dir Some ys by (simp add: node_at_below_file)
          qed
          show ?thesis
            using Dir q True Nil a b by (simp add: file_at_def isdir_def update_conv')
        next
          case p: (Cons z zs)
          show ?thesis
          proof (cases "map_of es x")
            case None
            then show ?thesis using Dir p by simp
          next
            case (Some c)
            have 1: "\<not> isdir c p'" using Cons.prems(1) Dir Some by (simp add: isdir_def)
            have 2: "ys \<noteq> p'" using Cons.prems(3) q True by simp
            have "file_at (put_at c p' v) ys = file_at c ys \<and>
                  isdir (put_at c p' v) ys = isdir c ys"
              using Cons.IH [OF 1 Cons.prems(2) 2] .
            then show ?thesis
              using Dir q True p Some by (simp add: file_at_def isdir_def update_conv')
          qed
        qed
      qed
    qed
  qed simp_all
qed

lemma file_at_node_at: "file_at t q = Some n \<Longrightarrow> node_at t q = Some n"
  by (cases "node_at t q") (auto simp: file_at_def split: node.splits)

lemma node_at_file_at: "node_at t q = Some n \<Longrightarrow> \<not> is_dir n \<Longrightarrow> file_at t q = Some n"
  by (cases n) (simp_all add: file_at_def)

lemma version_paths_differ: "VERSION_PATH \<noteq> VERSION_PYC_PATH"
  by (simp add: VERSION_PATH_def VERSION_PYC_PATH_def)

lemma write_bytecode_effect:
  assumes "node_at (fs st) VERSION_PATH = Some (VersionPy v r t)"
  shows "out (write_bytecode v' r' t' st) = out st"
    and "clock_reads (write_bytecode v' r' t' st) = clock_reads st"
    and "node_at (fs (write_bytecode v' r' t' st)) VERSION_PATH = Some (VersionPy v r t)"
    and "q \<noteq> VERSION_PYC_PATH \<Longrightarrow>
         file_at (fs (write_bytecode v' r' t' st)) q = file_at (fs st) q \<and>
         isdir (fs (write_bytecode v' r' t' st)) q = isdir (fs st) q"
    and "node_at (fs (write_bytecode v' r' t' st)) VERSION_PYC_PATH = Some (VersionPyc v' r' t') \<or>
         isdir (fs (write_bytecode v' r' t' st)) VERSION_PYC_PATH"
proof -
  let ?w = "write_bytecode v' r' t' st"
  show "out ?w = out st" "clock_reads ?w = clock_reads st"
    by (simp_all add: write_bytecode_def)
  have other: "\<And>q. q \<noteq> VERSION_PYC_PATH \<Longrightarrow>
      file_at (fs ?w) q = file_at (fs st) q \<and> isdir (fs ?w) q = isdir (fs st) q"
    using put_leaf_other [of "fs st" VERSION_PYC_PATH "VersionPyc v' r' t'"]
    by (simp add: write_bytecode_def)
  then show "q \<noteq> VERSION_PYC_PATH \<Longrightarrow>
      file_at (fs ?w) q = file_at (fs st) q \<and> isdir (fs ?w) q = isdir (fs st) q" .
  have "file_at (fs st) VERSION_PATH = Some (VersionPy v r t)"
    using assms by (intro node_at_file_at) simp_all
  then have "file_at (fs ?w) VERSION_PATH = Some (VersionPy v r t)"
    using other [OF version_paths_differ] by simp
  then show "node_at (fs ?w) VERSION_PATH = Some (VersionPy v r t)"
    by (rule file_at_node_at)
  have "node_at (fs st) VERSION_PATH \<noteq> None" using assms by simp
  then have "isdir (fs st) (butlast VERSION_PATH)"
    by (rule isdir_butlast) (simp add: VERSION_PATH_def)
  then have "isdir (fs st) (butlast VERSION_PYC_PATH)"
    by (simp add: VERSION_PATH_def VERSION_PYC_PATH_def)
  then have "node_at (put_at (fs st) VERSION_PYC_PATH (VersionPyc v' r' t')) VERSION_PYC_PATH =
             Some (VersionPyc v' r' t')"
    by (intro node_at_put_same) (simp_all add: VERSION_PYC_PATH_def)
  then show "node_at (fs ?w) VERSION_PYC_PATH = Some (VersionPyc v' r' t') \<or>
             isdir (fs ?w) VERSION_PYC_PATH"
    by (simp add: write_bytecode_def)
qed

section \<open>Properties of the version resolver\<close>


lemma verify_trunk: "verify_version (Some ''trunk'') VERSIONS = Inr (Some ''trunk'')"
  by (simp add: VERSIONS_def dotted_numeric_def search_def plus_def opt_def is_digit_def)

text \<open>
  A version number that \<open>_verify_version\<close> finds in none of the three entries of
  \<open>VERSIONS\<close> makes the resolver raise ValueError in the state it was called in.
\<close>

lemma version_rejects_unmatched:
  assumes "\<not> search dotted_numeric v" and "v \<noteq> ''trunk''" and "v \<noteq> ''keep''"
  shows "version e v tag st = (Inl ValueError, st)"
  using assms by (simp add: version_def VERSIONS_def raise_def)

text \<open>
  Claim C6 at its failing input.  The version number \<open>2.1\<close> followed by a newline is
  not of the form \<open>2.x\<close> or \<open>2.x.y\<close>: the pattern matches \<open>2.1\<close> and does not match
  the longer string.  Under Python's \<open>search\<close> the \<open>$\<close> of \<open>^2\.\d+(\.\d+)?$\<close> also
  matches before a newline that ends the string, so \<open>_verify_version\<close> accepts the
  value.  The resolver raises no ValueError: it writes the version file with the
  newline inside the quoted value, and the import of that file fails with a
  SyntaxError.
\<close>

theorem version_with_newline_accepted:
  "matches dotted_numeric ''2.1'' \<and>
   \<not> matches dotted_numeric (''2.1'' @ [CHR 0x0A]) \<and>
   search dotted_numeric (''2.1'' @ [CHR 0x0A]) \<and>
   fst (version demo_env (''2.1'' @ [CHR 0x0A]) (Some ''final'') demo_state) = Inl SyntaxError \<and>
   node_at (fs (snd (version demo_env (''2.1'' @ [CHR 0x0A]) (Some ''final'') demo_state)))
       VERSION_PATH =
     Some (VersionPy (''2.1'' @ [CHR 0x0A]) ''final'' ''20130307-010203'')"
  by code_simp

text \<open>
  Claim C4 at its failing inputs.  The accessor \<open>get_version\<close> with the default
  separator gives \<open>2.1.13\<close> for the release tag \<open>final\<close> and \<open>2.1.13 alpha2\<close> for the
  release tag \<open>alpha2\<close>, but the resolver never stores \<open>alpha2\<close>: with the version number
  \<open>2.1.13\<close> it raises ValueError for the release tags \<open>alpha2\<close>, \<open>alpha\<close> and \<open>beta\<close>, and
  leaves the state as it was.  \<open>RELEASES\<close> accepts \<open>a\<close>, \<open>b\<close> and \<open>rc\<close> with an optional
  number, and \<open>final\<close>.
\<close>

theorem alpha_release_tag_rejected:
  "version e ''2.1.13'' (Some ''alpha2'') st = (Inl ValueError, st) \<and>
   version e ''2.1.13'' (Some ''alpha'') st = (Inl ValueError, st) \<and>
   version e ''2.1.13'' (Some ''beta'') st = (Inl ValueError, st) \<and>
   get_version '' '' \<lparr>VERSION = ''2.1.13'', RELEASE = ''final'', TIMESTAMP = t\<rparr> = ''2.1.13'' \<and>
   get_version '' '' \<lparr>VERSION = ''2.1.13'', RELEASE = ''alpha2'', TIMESTAMP = t\<rparr> = ''2.1.13 alpha2''"
  by (simp add: version_def VERSIONS_def RELEASES_def dotted_numeric_def search_def plus_def
      opt_def is_digit_def seq_def bind_def raise_def get_version_def)

lemma import_version_stored:
  assumes "node_at (fs st) VERSION_PATH = Some (VersionPy v r t)"
    and "literal_ok v" and "literal_ok r" and "literal_ok t"
  shows "fst (import_version st) = Inr \<lparr>VERSION = v, RELEASE = r, TIMESTAMP = t\<rparr>"
    and "out (snd (import_version st)) = out st"
    and "clock_reads (snd (import_version st)) = clock_reads st"
    and "node_at (fs (snd (import_version st))) VERSION_PATH = Some (VersionPy v r t)"
    and "q \<noteq> VERSION_PYC_PATH \<Longrightarrow>
         file_at (fs (snd (import_version st))) q = file_at (fs st) q \<and>
         isdir (fs (snd (import_version st))) q = isdir (fs st) q"
    and "node_at (fs (snd (import_version st))) VERSION_PYC_PATH = Some (VersionPyc v r t) \<or>
         isdir (fs (snd (import_version st))) VERSION_PYC_PATH"
proof -
  show "fst (import_version st) = Inr \<lparr>VERSION = v, RELEASE = r, TIMESTAMP = t\<rparr>"
    using assms by (simp add: import_version_def)
  have s: "snd (import_version st) =
      (if node_at (fs st) VERSION_PYC_PATH = Some (VersionPyc v r t) then st
       else write_bytecode v r t st)"
    using assms by (simp add: import_version_def)
  note w = write_bytecode_effect [OF assms(1), where v'=v and r'=r and t'=t]
  show "out (snd (import_version st)) = out st"
    "clock_reads (snd (import_version st)) = clock_reads st"
    "node_at (fs (snd (import_version st))) VERSION_PATH = Some (VersionPy v r t)"
    "node_at (fs (snd (import_version st))) VERSION_PYC_PATH = Some (VersionPyc v r t) \<or>
     isdir (fs (snd (import_version st))) VERSION_PYC_PATH"
    using w(1,2,3,5) assms(1) unfolding s by (simp_all split: if_splits)
  show "q \<noteq> VERSION_PYC_PATH \<Longrightarrow>
         file_at (fs (snd (import_version st))) q = file_at (fs st) q \<and>
         isdir (fs (snd (import_version st))) q = isdir (fs st) q"
    using w(4) [of q] unfolding s by simp
qed

lemma import_version_settled:
  assumes "node_at (fs st) VERSION_PATH = Some (VersionPy v r t)"
    and "literal_ok v" and "literal_ok r" and "literal_ok t"
    and "node_at (fs st) VERSION_PYC_PATH = Some (VersionPyc v r t) \<or>
         isdir (fs st) VERSION_PYC_PATH"
  shows "import_version st = (Inr \<lparr>VERSION = v, RELEASE = r, TIMESTAMP = t\<rparr>, st)"
  using assms by (auto simp: import_version_def write_bytecode_def)

lemma bind_import_version:
  assumes "fst (import_version st) = Inr m"
  shows "bind import_version f st = f m (snd (import_version st))"
  using assms by (cases "import_version st") (simp add: bind_def)





lemma write_version_file:
  assumes "isdir (fs st) ROBOT_PATH" and "\<not> isdir (fs st) VERSION_PATH"
  shows "write_file VERSION_PATH v st = (Inr (), st\<lparr>fs := put_at (fs st) VERSION_PATH v\<rparr>)"
    and "node_at (put_at (fs st) VERSION_PATH v) VERSION_PATH = Some v"
  using assms node_at_put_same [of VERSION_PATH "fs st" v]
  by (simp_all add: write_file_def VERSION_PATH_def)

text \<open>
  Claim C8.  With the version number \<open>trunk\<close>, whatever release tag is passed, the
  resolver writes a version file whose release tag is the local date of the first clock
  reading in the form \<open>YYYYMMDD\<close>, and returns \<open>trunk\<close> followed by that date.  The year
  has four digits (\<open>1000\<close> to \<open>9999\<close>), and the directory of the version file exists.
\<close>

theorem trunk_release_is_date:
  assumes "isdir (fs st) ROBOT_PATH" and "\<not> isdir (fs st) VERSION_PATH"
    and "now = localtime e (clock_reads st)"
    and "1000 \<le> tm_year now" and "tm_year now \<le> 9999"
    and "tm_mon now \<le> 12" and "tm_mday now \<le> 31"
  shows "node_at (fs (snd (version e ''trunk'' tag st))) VERSION_PATH =
           Some (VersionPy ''trunk'' (yyyymmdd (tm_year now) (tm_mon now) (tm_mday now))
                   (time_stamp (localtime e (Suc (clock_reads st))))) \<and>
         fst (version e ''trunk'' tag st) =
           Inr (''trunk'' @ yyyymmdd (tm_year now) (tm_mon now) (tm_mday now))"
proof -
  let ?date = "yyyymmdd (tm_year now) (tm_mon now) (tm_mday now)"
  let ?ts = "time_stamp (localtime e (Suc (clock_reads st)))"
  let ?st1 = "st\<lparr>clock_reads := Suc (Suc (clock_reads st))\<rparr>"
  let ?st2 = "?st1\<lparr>fs := put_at (fs st) VERSION_PATH (VersionPy ''trunk'' ?date ?ts),
                    out := out st @ [''Updated version to trunk '' @ ?date]\<rparr>"
  have w: "isdir (fs ?st1) ROBOT_PATH" "\<not> isdir (fs ?st1) VERSION_PATH"
    using assms(1,2) by simp_all
  have d: "date_stamp now = ?date"
    using assms(4-7) by (rule date_stamp_yyyymmdd)
  have l: "literal_ok ''trunk''" "literal_ok ?date" "literal_ok ?ts"
    using literal_ok_date_stamp [of now] literal_ok_time_stamp d by (simp_all add: literal_ok_def)
  have n: "?date \<noteq> ''final''"
    by (simp add: yyyymmdd_def)
  have u: "bind (read_localtime e) (\<lambda>now. update_version e ''trunk'' (date_stamp now)) st =
           (Inr (), ?st2)"
    using write_version_file [OF w] d assms(3) [symmetric]
    by (simp add: update_version_def read_localtime_def monad_defs)
  have v: "node_at (fs ?st2) VERSION_PATH = Some (VersionPy ''trunk'' ?date ?ts)"
    using write_version_file(2) [OF w] by simp
  note i = import_version_stored [OF v l]
  have t: "bind import_version (\<lambda>m. ret (get_version [] m)) ?st2 =
      (Inr (get_version [] \<lparr>VERSION = ''trunk'', RELEASE = ?date, TIMESTAMP = ?ts\<rparr>),
       snd (import_version ?st2))"
    using bind_import_version [OF i(1), of "\<lambda>m. ret (get_version [] m)"] by (simp add: ret_def)
  have "version e ''trunk'' tag st =
          (Inr (get_version [] \<lparr>VERSION = ''trunk'', RELEASE = ?date, TIMESTAMP = ?ts\<rparr>),
           snd (import_version ?st2))"
    using u t by (simp add: version_def verify_trunk seq_def bind_def [of "bind _ _"])
  then show ?thesis using i(4) n by (simp add: get_version_def)
qed

text \<open>
  The hypotheses of C8 hold in the example state on 7 March 2013.
\<close>

theorem trunk_release_is_date_witness:
  "isdir (fs demo_state) ROBOT_PATH \<and> \<not> isdir (fs demo_state) VERSION_PATH \<and>
   demo_tm = localtime demo_env (clock_reads demo_state) \<and>
   1000 \<le> tm_year demo_tm \<and> tm_year demo_tm \<le> 9999 \<and> tm_mon demo_tm \<le> 12 \<and>
   tm_mday demo_tm \<le> 31 \<and>
   fst (version demo_env ''trunk'' (Some ''final'') demo_state) = Inr ''trunk20130307''"
proof -
  have a: "isdir (fs demo_state) ROBOT_PATH" "\<not> isdir (fs demo_state) VERSION_PATH"
    by (simp_all add: demo_state_def demo_fs_def VERSION_PATH_def ROBOT_PATH_def isdir_def)
  have b: "demo_tm = localtime demo_env (clock_reads demo_state)"
    by (simp add: demo_env_def)
  have c: "1000 \<le> tm_year demo_tm" "tm_year demo_tm \<le> 9999" "tm_mon demo_tm \<le> 12"
    "tm_mday demo_tm \<le> 31"
    by (simp_all add: demo_tm_def)
  have d: "yyyymmdd (tm_year demo_tm) (tm_mon demo_tm) (tm_mday demo_tm) = ''20130307''"
    by (simp add: yyyymmdd_def demo_tm_def digit_char_def)
  show ?thesis
    using a c trunk_release_is_date [OF a b c, of "Some ''final''"]
    by (simp add: d demo_env_def)
qed

section \<open>Validation comes before any change\<close>

lemma verify_version_errors:
  "verify_version given valid = Inl err \<Longrightarrow> err = ValueError \<or> err = TypeError"
  by (induction given valid rule: verify_version.induct) (auto split: if_splits option.splits)

lemma import_version_result:
  "import_version st = (r, st') \<Longrightarrow> r \<noteq> Inl ValueError \<and> r \<noteq> Inl TypeError"
  by (auto simp: import_version_def split: option.splits node.splits if_splits)

lemma keep_version_result:
  "keep_version st = (r, st') \<Longrightarrow> r \<noteq> Inl ValueError \<and> r \<noteq> Inl TypeError"
  using import_version_result [of st]
  by (cases "import_version st") (auto simp: keep_version_def bind_def print_def split: sum.splits)

lemma write_file_result:
  "write_file p v st = (r, st') \<Longrightarrow> r \<noteq> Inl ValueError \<and> r \<noteq> Inl TypeError"
  by (auto simp: write_file_def split: if_splits)

lemma update_version_result:
  "update_version e v t st = (r, st') \<Longrightarrow> r \<noteq> Inl ValueError \<and> r \<noteq> Inl TypeError"
proof -
  assume a: "update_version e v t st = (r, st')"
  let ?st1 = "st\<lparr>clock_reads := Suc (clock_reads st)\<rparr>"
  obtain r1 s1 where w: "write_file VERSION_PATH (VersionPy v t (time_stamp (localtime e (clock_reads st)))) ?st1 = (r1, s1)"
    by (cases "write_file VERSION_PATH (VersionPy v t (time_stamp (localtime e (clock_reads st)))) ?st1")
  show ?thesis
    using a w write_file_result [OF w]
    by (cases r1) (auto simp: update_version_def read_localtime_def bind_def seq_def print_def)
qed

lemma nve_bind:
  "no_validation_error m \<Longrightarrow> (\<And>x. no_validation_error (f x)) \<Longrightarrow> no_validation_error (bind m f)"
  unfolding no_validation_error_def bind_def
  by (auto split: prod.splits sum.splits)

lemma nve_seq:
  "no_validation_error m \<Longrightarrow> no_validation_error k \<Longrightarrow> no_validation_error (seq m k)"
  unfolding seq_def by (rule nve_bind)

lemma nve_basic:
  "no_validation_error (ret x)" "no_validation_error (print l)"
  "no_validation_error (read_localtime e)" "no_validation_error import_version"
  "no_validation_error keep_version" "no_validation_error (update_version e v t)"
  "no_validation_error (write_file p n)"
  using import_version_result keep_version_result update_version_result write_file_result
  unfolding no_validation_error_def ret_def print_def read_localtime_def
  by blast+

lemma nve_version_tail: "no_validation_error (bind import_version (\<lambda>m. ret (get_version [] m)))"
  by (intro nve_bind nve_basic)

lemma nve_D:
  "no_validation_error m \<Longrightarrow> fst (m st) = Inl err \<Longrightarrow> err = ValueError \<or> err = TypeError \<Longrightarrow> False"
  unfolding no_validation_error_def by (cases "m st") auto

lemma version_validation_error:
  assumes "fst (version e v tag st) = Inl err" and "err = ValueError \<or> err = TypeError"
  shows "version e v tag st' = (Inl err, st')"
proof (cases "verify_version (Some v) VERSIONS")
  case (Inl x)
  then show ?thesis using assms(1) by (simp add: version_def raise_def)
next
  case v_ok: (Inr y)
  let ?tail = "bind import_version (\<lambda>m. ret (get_version [] m))"
  show ?thesis
  proof (cases "v = ''keep''")
    case True
    have "no_validation_error (seq keep_version ?tail)"
      by (intro nve_seq nve_basic nve_version_tail)
    moreover have "version e v tag st = seq keep_version ?tail st"
      using v_ok True by (simp add: version_def)
    ultimately show ?thesis using assms nve_D by metis
  next
    case not_keep: False
    show ?thesis
    proof (cases "v = ''trunk''")
      case True
      have "no_validation_error
              (seq (bind (read_localtime e) (\<lambda>now. update_version e v (date_stamp now))) ?tail)"
        by (intro nve_seq nve_bind nve_basic nve_version_tail)
      moreover have "version e v tag st =
          seq (bind (read_localtime e) (\<lambda>now. update_version e v (date_stamp now))) ?tail st"
        using v_ok True by (simp add: version_def)
      ultimately show ?thesis using assms nve_D by metis
    next
      case not_trunk: False
      show ?thesis
      proof (cases "verify_version tag RELEASES")
        case (Inl x)
        then show ?thesis
          using assms(1) v_ok not_keep not_trunk by (simp add: version_def raise_def seq_def bind_def)
      next
        case (Inr t)
        have "no_validation_error (seq (update_version e v (py_str t)) ?tail)"
          by (intro nve_seq nve_basic nve_version_tail)
        moreover have "version e v tag st = seq (update_version e v (py_str t)) ?tail st"
          using v_ok not_keep not_trunk Inr by (simp add: version_def)
        ultimately show ?thesis using assms nve_D by metis
      qed
    qed
  qed
qed

lemma version_star_validation_error:
  assumes "fst (version_star e info st) = Inl err" and "err = ValueError \<or> err = TypeError"
  shows "version_star e info st' = (Inl err, st')"
proof (cases info)
  case Nil
  then show ?thesis using assms(1) by (simp add: version_star_def raise_def)
next
  case (Cons v rest)
  show ?thesis
  proof (cases rest)
    case Nil
    then show ?thesis
      using assms Cons version_validation_error [of e v None st err st']
      by (simp add: version_star_def)
  next
    case c2: (Cons r rest2)
    show ?thesis
    proof (cases rest2)
      case Nil
      then show ?thesis
        using assms Cons c2 version_validation_error [of e v "Some r" st err st']
        by (simp add: version_star_def)
    next
      case (Cons a b)
      then show ?thesis using assms(1) \<open>info = v # rest\<close> c2 by (simp add: version_star_def raise_def)
    qed
  qed
qed

text \<open>
  Claim C5, as amended.  When the resolver fails with a validation error (the
  ValueError or TypeError of \<open>_verify_version\<close>, or the TypeError of a wrong number of
  arguments), the commands \<open>sdist\<close>, \<open>wininst\<close>, \<open>all\<close> and \<open>version\<close> raise that error in
  the state they were started in: the resolver is their first step and nothing has
  been changed.  The command \<open>jar\<close> locates or downloads the Jython archive first; it
  then fails as well, and the file system is the one that \<open>_get_jython_jar\<close> left.
\<close>

theorem validation_failure_before_mutation:
  assumes "fst (version_star e info st) = Inl err" and "err = ValueError \<or> err = TypeError"
  shows "(c \<noteq> Jar \<longrightarrow> run_command e c info st = (Inl err, st)) \<and>
         fs (snd (run_command e Jar info st)) = fs (snd (get_jython_jar e st)) \<and>
         (\<exists>x. fst (run_command e Jar info st) = Inl x)"
proof -
  have v: "\<And>st'. version_star e info st' = (Inl err, st')"
    using assms by (rule version_star_validation_error)
  have a: "c \<noteq> Jar \<longrightarrow> run_command e c info st = (Inl err, st)"
    by (cases c) (simp_all add: sdist_def wininst_def all_packages_def bind_def v)
  obtain r s1 where g: "get_jython_jar e st = (r, s1)"
    by (cases "get_jython_jar e st")
  have b: "fs (snd (run_command e Jar info st)) = fs s1 \<and>
           (\<exists>x. fst (run_command e Jar info st) = Inl x)"
    by (cases r) (simp_all add: jar_def bind_def seq_def print_def g v)
  show ?thesis using a b g by simp
qed

text \<open>
  The hypotheses of C5 as amended hold for the release tag \<open>alpha1\<close> in the example.
\<close>

theorem validation_failure_before_mutation_witness:
  "fst (version_star demo_env [''2.8'', ''alpha1''] demo_state) = Inl ValueError \<and>
   run_command demo_env Sdist [''2.8'', ''alpha1''] demo_state = (Inl ValueError, demo_state) \<and>
   fs (snd (run_command demo_env Jar [''2.8'', ''alpha1''] demo_state)) =
     fs (snd (get_jython_jar demo_env demo_state))"
proof -
  have h: "fst (version_star demo_env [''2.8'', ''alpha1''] demo_state) = Inl ValueError"
    by code_simp
  show ?thesis
    using h validation_failure_before_mutation [OF h, of Sdist] by simp
qed

text \<open>
  Claim C5 as stated fails for \<open>jar\<close>: with an invalid version number the directory
  \<open>ext-lib\<close> is created and the Jython archive is downloaded into it before the
  validation fails.
\<close>

theorem jar_downloads_before_validation:
  "fst (version_star demo_env [''bogus''] demo_state) = Inl ValueError \<and>
   \<not> exists (fs demo_state) [''ext-lib''] \<and>
   exists (fs (snd (main demo_env [''jar'', ''bogus''] demo_state)))
     [''ext-lib'', ''jython-standalone-2.5.3.jar'']"
  by code_simp

section \<open>Failures of the external tools in \<open>jar\<close>\<close>

text \<open>
  Claim C3 at its failing inputs, in the example project.  When \<open>javac\<close>, the bytecode
  compiler or the \<open>jar\<close> tool exits with a non-zero code, \<open>jar\<close> prints a message and
  returns, and the exit code of the process is \<open>0\<close>; the message for the bytecode
  compiler names \<open>javac\<close>.  When \<open>javac\<close> is not found on a POSIX host, the OSError is
  not caught by \<open>jar\<close> nor by the script: the process ends with a traceback and exit
  code \<open>1\<close>, and the staging directory is left behind.
\<close>

theorem jar_tool_failures:
  "fst (main (demo_env\<lparr>javac := (\<lambda>es. Exited 2 es)\<rparr>) [''jar'', ''2.8'', ''a1''] demo_state) = 0 \<and>
   last (out (snd (main (demo_env\<lparr>javac := (\<lambda>es. Exited 2 es)\<rparr>) [''jar'', ''2.8'', ''a1''] demo_state))) =
     ''Unable to compile java classes! Check for javac command available at the command line.'' \<and>
   fst (main (demo_env\<lparr>compileall := (\<lambda>es. Exited 1 es)\<rparr>) [''jar'', ''2.8'', ''a1''] demo_state) = 0 \<and>
   last (out (snd (main (demo_env\<lparr>compileall := (\<lambda>es. Exited 1 es)\<rparr>) [''jar'', ''2.8'', ''a1''] demo_state))) =
     ''Unable to compile java classes! Check for javac command available at the command line.'' \<and>
   fst (main (demo_env\<lparr>jar_tool := (\<lambda>es. Exited 1 None)\<rparr>) [''jar'', ''2.8'', ''a1''] demo_state) = 0 \<and>
   last (out (snd (main (demo_env\<lparr>jar_tool := (\<lambda>es. Exited 1 None)\<rparr>) [''jar'', ''2.8'', ''a1''] demo_state))) =
     ''Unable to create jar! Check for jar command available at the command line.'' \<and>
   fst (dispatch (demo_env\<lparr>javac := (\<lambda>es. NotFound)\<rparr>) [''jar'', ''2.8'', ''a1''] demo_state) = Inl OSError \<and>
   fst (main (demo_env\<lparr>javac := (\<lambda>es. NotFound)\<rparr>) [''jar'', ''2.8'', ''a1''] demo_state) = 1 \<and>
   exists (fs (snd (main (demo_env\<lparr>javac := (\<lambda>es. NotFound)\<rparr>) [''jar'', ''2.8'', ''a1''] demo_state)))
     [''tmp-jar-dir'']"
  by code_simp

section \<open>The removal of sources after recompilation\<close>

lemma remove_py_files_names: "fst ` set (remove_py_files es) \<subseteq> fst ` set es"
  by (induction es rule: remove_py_files.induct) (auto split: if_splits)

lemma map_of_remove_py_files_absent:
  "x \<notin> fst ` set es \<Longrightarrow> map_of (remove_py_files es) x = None"
  using remove_py_files_names [of es] by (auto simp: map_of_eq_None_iff)

lemma map_of_remove_py_files:
  "distinct (map fst es) \<Longrightarrow>
   map_of (remove_py_files es) x = Option.bind (map_of es x) (after_removal x)"
  by (induction es rule: remove_py_files.induct)
     (simp_all add: map_of_remove_py_files_absent)

lemma node_at_remove_py_files:
  "wf_node (Dir es) \<Longrightarrow> p \<noteq> [] \<Longrightarrow>
   node_at (Dir (remove_py_files es)) p =
     Option.bind (node_at (Dir es) p) (after_removal (last p))"
proof (induction p arbitrary: es)
  case Nil
  then show ?case by simp
next
  case (Cons x xs)
  have d: "distinct (map fst es)" using Cons.prems(1) by simp
  note m = map_of_remove_py_files [OF d, of x]
  show ?case
  proof (cases xs)
    case Nil
    then show ?thesis using m by (simp del: node_at.simps add: node_at_single)
  next
    case ne: (Cons y ys)
    show ?thesis
    proof (cases "map_of es x")
      case None
      then show ?thesis using m by simp
    next
      case (Some c)
      show ?thesis
      proof (cases c)
        case (Dir sub)
        have "wf_node (Dir sub)" using wf_node_child [OF Cons.prems(1) Some] Dir by simp
        then show ?thesis
          using Cons.IH [of sub] ne Some Dir m by simp
      qed (use Some ne m in \<open>auto\<close>)
    qed
  qed
qed

lemma file_at_remove_py_files:
  assumes "wf_node (Dir es)"
  shows "file_at (Dir (remove_py_files es)) p =
           (if p \<noteq> [] \<and> endswith (last p) ''.py'' then None else file_at (Dir es) p)"
proof (cases "p = []")
  case True
  then show ?thesis by (simp add: file_at_def)
next
  case False
  show ?thesis
  proof (cases "node_at (Dir es) p")
    case None
    then show ?thesis
      using node_at_remove_py_files [OF assms False] by (simp add: file_at_def)
  next
    case (Some n)
    then show ?thesis
      using node_at_remove_py_files [OF assms False] False
      by (cases n) (simp_all add: file_at_def)
  qed
qed

lemma file_at_put_dir:
  "node_at t q = Some (Dir old) \<Longrightarrow> q \<noteq> [] \<Longrightarrow>
   file_at (put_at t q (Dir new)) p =
     (if prefix q p then file_at (Dir new) (drop (length q) p) else file_at t p)"
proof (induction q arbitrary: t p)
  case Nil
  then show ?case by simp
next
  case (Cons x q')
  obtain es0 c where t: "t = Dir es0" and c: "map_of es0 x = Some c" and n: "node_at c q' = Some (Dir old)"
    using Cons.prems(1) by (cases t) (auto split: option.splits)
  show ?case
  proof (cases q')
    case Nil
    then show ?thesis
      using t c n by (cases p) (auto simp: file_at_def update_conv')
  next
    case ne: (Cons y ys)
    have ih: "\<And>p'. file_at (put_at c q' (Dir new)) p' =
        (if prefix q' p' then file_at (Dir new) (drop (length q') p') else file_at c p')"
      using Cons.IH [OF n] ne by simp
    show ?thesis
    proof (cases p)
      case Nil
      then show ?thesis using t c ne by (simp add: file_at_def)
    next
      case pc: (Cons z zs)
      show ?thesis
        using t c ne pc ih [of zs]
        by (auto simp: file_at_def update_conv')
    qed
  qed
qed

lemma run_compiler_success:
  assumes "tool (entries_at (fs st) dir) = Exited 0 es"
  shows "run_compiler shell tool dir st = (Inr (), st\<lparr>fs := put_at (fs st) dir (Dir es)\<rparr>)"
  using assms by (simp add: run_compiler_def effect_of_def check_call_def)

lemma walk_remove_py_file_at:
  assumes "node_at t tmpdir = Some (Dir es)" and "wf_node (Dir es)" and "tmpdir \<noteq> []"
    and "fs st = t"
  shows "fst (walk_remove_py (tmpdir @ [''Lib'', ''robot'']) st) = Inr () \<and>
         file_at (fs (snd (walk_remove_py (tmpdir @ [''Lib'', ''robot'']) st))) (tmpdir @ p) =
           (if prefix [''Lib'', ''robot''] p \<and> endswith (last p) ''.py'' then None
            else file_at (Dir es) p)"
proof -
  let ?LR = "[''Lib'', ''robot'']"
  have at: "node_at t (tmpdir @ ?LR) = node_at (Dir es) ?LR"
    using assms(1) by (simp only: node_at_append option.case)
  have base: "file_at t (tmpdir @ p) = file_at (Dir es) p"
    using assms(1) by (simp only: file_at_append option.case)
  show ?thesis
  proof (cases "node_at (Dir es) ?LR")
    case None
    have "prefix ?LR p \<Longrightarrow> file_at (Dir es) p = None"
    proof -
      assume "prefix ?LR p"
      then obtain q where "p = ?LR @ q" by (auto simp: prefix_def)
      then show ?thesis using None by (simp only: file_at_append option.case)
    qed
    then show ?thesis
      using None at base assms(4) by (auto simp: walk_remove_py_def)
  next
    case (Some n)
    show ?thesis
    proof (cases "is_dir n")
      case False
      have "prefix ?LR p \<Longrightarrow> endswith (last p) ''.py'' \<Longrightarrow> file_at (Dir es) p = None"
      proof -
        assume a: "prefix ?LR p" "endswith (last p) ''.py''"
        then obtain q where q: "p = ?LR @ q" by (auto simp: prefix_def)
        have "q \<noteq> []" using a(2) q by (auto simp: endswith_def suffix_def)
        then have "file_at n q = None" using False by (intro file_at_below_file)
        then show ?thesis using Some unfolding q by (simp only: file_at_append option.case)
      qed
      then show ?thesis
        using Some False at base assms(4)
        by (cases n) (auto simp: walk_remove_py_def)
    next
      case True
      then obtain sub where Dir: "n = Dir sub" by (cases n) auto
      have w: "wf_node (Dir sub)" using wf_node_at [OF assms(2) Some] Dir by simp
      have n': "node_at t (tmpdir @ ?LR) = Some (Dir sub)" using at Some Dir by simp
      have res: "walk_remove_py (tmpdir @ ?LR) st =
                   (Inr (), st\<lparr>fs := put_at t (tmpdir @ ?LR) (Dir (remove_py_files sub))\<rparr>)"
        using n' assms(4) by (simp add: walk_remove_py_def)
      have put: "file_at (put_at t (tmpdir @ ?LR) (Dir (remove_py_files sub))) (tmpdir @ p) =
          (if prefix ?LR p then file_at (Dir (remove_py_files sub)) (drop 2 p)
           else file_at t (tmpdir @ p))"
        using file_at_put_dir [OF n', of "remove_py_files sub" "tmpdir @ p"] by simp
      have inner: "prefix ?LR p \<Longrightarrow>
          file_at (Dir (remove_py_files sub)) (drop 2 p) =
            (if endswith (last p) ''.py'' then None else file_at (Dir es) p)"
      proof -
        assume "prefix ?LR p"
        then obtain q where q: "p = ?LR @ q" by (auto simp: prefix_def)
        have sub: "file_at (Dir es) p = file_at (Dir sub) q"
          using Some Dir unfolding q by (simp only: file_at_append option.case)
        show ?thesis
        proof (cases "q = []")
          case True
          then show ?thesis
            using q sub by (simp add: file_at_def endswith_def suffix_def)
        next
          case False
          then show ?thesis
            using q sub file_at_remove_py_files [OF w, of q] by simp
        qed
      qed
      show ?thesis using res put inner base by simp
    qed
  qed
qed

lemma isdir_put_dir:
  "node_at t q = Some (Dir old) \<Longrightarrow> q \<noteq> [] \<Longrightarrow>
   isdir (put_at t q (Dir new)) p =
     (if prefix q p then isdir (Dir new) (drop (length q) p) else isdir t p)"
proof (induction q arbitrary: t p)
  case Nil
  then show ?case by simp
next
  case (Cons x q')
  obtain es0 c where t: "t = Dir es0" and c: "map_of es0 x = Some c" and n: "node_at c q' = Some (Dir old)"
    using Cons.prems(1) by (cases t) (auto split: option.splits)
  show ?case
  proof (cases q')
    case Nil
    then show ?thesis
      using t c n by (cases p) (auto simp: isdir_def update_conv')
  next
    case ne: (Cons y ys)
    have ih: "\<And>p'. isdir (put_at c q' (Dir new)) p' =
        (if prefix q' p' then isdir (Dir new) (drop (length q') p') else isdir c p')"
      using Cons.IH [OF n] ne by simp
    show ?thesis
    proof (cases p)
      case Nil
      then show ?thesis using t c ne by (simp add: isdir_def)
    next
      case pc: (Cons z zs)
      show ?thesis
        using t c ne pc ih [of zs]
        by (auto simp: isdir_def update_conv')
    qed
  qed
qed

lemma walk_remove_py_isdir:
  assumes "node_at t tmpdir = Some (Dir es)" and "tmpdir \<noteq> []" and "fs st = t"
    and "\<not> prefix [''Lib'', ''robot''] p"
  shows "isdir (fs (snd (walk_remove_py (tmpdir @ [''Lib'', ''robot'']) st))) (tmpdir @ p) =
           isdir (Dir es) p"
proof -
  let ?LR = "[''Lib'', ''robot'']"
  have base: "isdir t (tmpdir @ p) = isdir (Dir es) p"
    using assms(1) by (simp add: isdir_def node_at_append)
  show ?thesis
  proof (cases "node_at t (tmpdir @ ?LR)")
    case None
    then show ?thesis using base assms(3) by (simp add: walk_remove_py_def)
  next
    case (Some n)
    show ?thesis
    proof (cases n)
      case (Dir sub)
      have "isdir (put_at t (tmpdir @ ?LR) (Dir (remove_py_files sub))) (tmpdir @ p) =
              isdir t (tmpdir @ p)"
        using isdir_put_dir [of t "tmpdir @ ?LR" sub "remove_py_files sub" "tmpdir @ p"]
          Some Dir assms(4) by simp
      then show ?thesis
        using Some Dir base assms(3) by (simp add: walk_remove_py_def)
    qed (use Some base assms(3) in \<open>simp_all add: walk_remove_py_def\<close>)
  qed
qed

lemma compile_all_py_files_success:
  assumes "compileall e (entries_at (fs st) tmpdir) = Exited 0 es"
    and "wf_node (Dir es)" and "isdir (fs st) (butlast tmpdir)" and "tmpdir \<noteq> []"
  shows "fst (compile_all_py_files e tmpdir jython_jar st) = Inr ()"
    and "file_at (fs (snd (compile_all_py_files e tmpdir jython_jar st))) (tmpdir @ p) =
           (if prefix [''Lib'', ''robot''] p \<and> endswith (last p) ''.py'' then None
            else file_at (Dir es) p)"
    and "\<not> prefix [''Lib'', ''robot''] p \<Longrightarrow>
         isdir (fs (snd (compile_all_py_files e tmpdir jython_jar st))) (tmpdir @ p) =
           isdir (Dir es) p"
proof -
  let ?st1 = "st\<lparr>fs := put_at (fs st) tmpdir (Dir es)\<rparr>"
  have c: "run_compiler False (compileall e) tmpdir st = (Inr (), ?st1)"
    using assms(1) by (rule run_compiler_success)
  have n: "node_at (put_at (fs st) tmpdir (Dir es)) tmpdir = Some (Dir es)"
    using assms(4,3) by (intro node_at_put_same)
  have eq: "compile_all_py_files e tmpdir jython_jar st =
          walk_remove_py (tmpdir @ [''Lib'', ''robot'']) ?st1"
    using c by (simp add: compile_all_py_files_def seq_def bind_def)
  show "fst (compile_all_py_files e tmpdir jython_jar st) = Inr ()"
    "file_at (fs (snd (compile_all_py_files e tmpdir jython_jar st))) (tmpdir @ p) =
           (if prefix [''Lib'', ''robot''] p \<and> endswith (last p) ''.py'' then None
            else file_at (Dir es) p)"
    using walk_remove_py_file_at [OF n assms(2) assms(4), of ?st1 p] eq by simp_all
  show "\<not> prefix [''Lib'', ''robot''] p \<Longrightarrow>
         isdir (fs (snd (compile_all_py_files e tmpdir jython_jar st))) (tmpdir @ p) =
           isdir (Dir es) p"
    using walk_remove_py_isdir [OF n assms(4), of ?st1 p] eq by simp
qed

section \<open>Cleanup after a failed recompilation\<close>

lemma frameD:
  "frame x m \<Longrightarrow> m st = (r, st') \<Longrightarrow>
   is_dir (fs st') = is_dir (fs st) \<and>
   (q \<noteq> [] \<longrightarrow> hd q \<noteq> x \<longrightarrow> node_at (fs st') q = node_at (fs st) q)"
  unfolding frame_def by blast

lemma frame_bind: "frame x m \<Longrightarrow> (\<And>y. frame x (f y)) \<Longrightarrow> frame x (bind m f)"
  unfolding frame_def bind_def
  by (auto split: prod.splits sum.splits)

lemma frame_seq: "frame x m \<Longrightarrow> frame x k \<Longrightarrow> frame x (seq m k)"
  unfolding seq_def by (rule frame_bind)

lemma frame_cond: "frame x m \<Longrightarrow> frame x k \<Longrightarrow> frame x (\<lambda>st. if P st then m st else k st)"
  unfolding frame_def by auto

lemma frame_if: "frame x m \<Longrightarrow> frame x k \<Longrightarrow> frame x (if b then m else k)"
  by simp

lemma frame_pure:
  "frame x (ret v)" "frame x (raise err)" "frame x (print l)" "frame x (read_localtime e)"
  "frame x (listdir p)"
  unfolding frame_def ret_def raise_def print_def read_localtime_def listdir_def
  by (auto split: option.splits node.splits if_splits)

lemma frame_put:
  assumes "p = [] \<or> hd p = x"
  shows "is_dir (put_at t p v) = is_dir t"
    and "q \<noteq> [] \<Longrightarrow> hd q \<noteq> x \<Longrightarrow> node_at (put_at t p v) q = node_at t q"
proof -
  show "is_dir (put_at t p v) = is_dir t" by (rule is_dir_put_at)
  show "q \<noteq> [] \<Longrightarrow> hd q \<noteq> x \<Longrightarrow> node_at (put_at t p v) q = node_at t q"
  proof (cases "p = []")
    case True
    then show ?thesis by (cases t) simp_all
  next
    case False
    assume "q \<noteq> []" "hd q \<noteq> x"
    then show ?thesis using False assms by (intro node_at_put_other) auto
  qed
qed

lemma frame_del:
  assumes "p = [] \<or> hd p = x"
  shows "is_dir (del_at t p) = is_dir t"
    and "q \<noteq> [] \<Longrightarrow> hd q \<noteq> x \<Longrightarrow> node_at (del_at t p) q = node_at t q"
proof -
  show "is_dir (del_at t p) = is_dir t" by (rule is_dir_del_at)
  show "q \<noteq> [] \<Longrightarrow> hd q \<noteq> x \<Longrightarrow> node_at (del_at t p) q = node_at t q"
  proof (cases "p = []")
    case True
    then show ?thesis by (cases t) simp_all
  next
    case False
    assume "q \<noteq> []" "hd q \<noteq> x"
    then show ?thesis using False assms by (intro node_at_del_other) auto
  qed
qed

lemma frame_fs_ops:
  assumes "p = [] \<or> hd p = x"
  shows "frame x (os_mkdir p)" "frame x (rmtree p)" "frame x (write_file p v)"
    "frame x (run_compiler shell tool p)"
  using frame_put [OF assms] frame_del [OF assms]
  unfolding frame_def os_mkdir_def rmtree_def write_file_def run_compiler_def Let_def
  by (auto split: if_splits option.splits sum.splits)

lemma frame_except: "frame x m \<Longrightarrow> frame x (except_called_process_error m msg)"
  unfolding frame_def except_called_process_error_def print_def
  by (auto split: prod.splits sum.splits error.splits)

lemma frame_get_jython_jar: "frame ''ext-lib'' (get_jython_jar e)"
proof -
  have "get_jython_jar e =
      (\<lambda>st. if exists (fs st) [''ext-lib'', ''jython-standalone-'' @ JYTHON_VERSION @ ''.jar'']
            then ret [''ext-lib'', ''jython-standalone-'' @ JYTHON_VERSION @ ''.jar''] st
            else seq (\<lambda>st1. if \<not> exists (fs st1) [''ext-lib''] then os_mkdir [''ext-lib''] st1
                            else ret () st1)
                (seq (print (''Jython not found, going to download from ''
                   @ ''http://search.maven.org/remotecontent?filepath=org/python/jython-standalone/''
                   @ JYTHON_VERSION @ ''/jython-standalone-'' @ JYTHON_VERSION @ ''.jar''))
                (seq (urlretrieve e [''ext-lib'', ''jython-standalone-'' @ JYTHON_VERSION @ ''.jar''])
                     (ret [''ext-lib'', ''jython-standalone-'' @ JYTHON_VERSION @ ''.jar'']))) st)"
    by (rule ext) (simp add: get_jython_jar_def Let_def)
  moreover have "frame ''ext-lib'' (urlretrieve e [''ext-lib'', ''jython-standalone-'' @ JYTHON_VERSION @ ''.jar''])"
    by (cases "download e") (simp_all add: urlretrieve_def frame_pure frame_fs_ops)
  ultimately show ?thesis
    by (simp only:) (intro frame_cond frame_seq frame_pure frame_fs_ops, simp_all)
qed

lemma frame_import_version: "frame ''src'' import_version"
proof -
  have p: "VERSION_PYC_PATH = [] \<or> hd VERSION_PYC_PATH = ''src''"
    by (simp add: VERSION_PYC_PATH_def ROBOT_PATH_def)
  show ?thesis
    using frame_put [OF p]
    unfolding frame_def import_version_def write_bytecode_def
    by (auto split: option.splits node.splits if_splits)
qed

lemma frame_update_version: "frame ''src'' (update_version e v t)"
  unfolding update_version_def
  by (intro frame_bind frame_seq frame_pure frame_fs_ops) (simp add: VERSION_PATH_def ROBOT_PATH_def)

lemma frame_version: "frame ''src'' (version e v tag)"
proof -
  have k: "frame ''src'' keep_version"
    unfolding keep_version_def by (intro frame_bind frame_pure frame_import_version)
  have t: "frame ''src'' (bind import_version (\<lambda>m. ret (get_version [] m)))"
    by (intro frame_bind frame_pure frame_import_version)
  have u: "frame ''src'' (bind (read_localtime e) (\<lambda>now. update_version e v (date_stamp now)))"
    by (intro frame_bind frame_pure frame_update_version)
  show ?thesis
  proof (cases "verify_version (Some v) VERSIONS")
    case (Inl a)
    then show ?thesis by (simp add: version_def frame_pure)
  next
    case (Inr b)
    show ?thesis
    proof (cases "verify_version tag RELEASES")
      case (Inl a)
      then show ?thesis
        using Inr k t u by (auto simp: version_def intro!: frame_seq frame_pure)
    next
      case r: (Inr c)
      then show ?thesis
        using Inr k t u frame_update_version
        by (auto simp: version_def intro!: frame_seq frame_pure)
    qed
  qed
qed

lemma frame_version_star: "frame ''src'' (version_star e info)"
  unfolding version_star_def
  by (auto split: list.splits intro: frame_version frame_pure)

lemma frame_create_tmpdir: "frame ''tmp-jar-dir'' create_tmpdir"
  unfolding create_tmpdir_def Let_def
  by (intro frame_cond frame_seq frame_pure frame_fs_ops) simp_all

lemma create_tmpdir_result:
  assumes "create_tmpdir st = (Inr tmpdir, st')"
  shows "tmpdir = [''tmp-jar-dir''] \<and> is_dir (fs st') \<and> isdir (fs st') tmpdir"
proof -
  let ?pre = "\<lambda>st. if exists (fs st) [''tmp-jar-dir''] then rmtree [''tmp-jar-dir''] st else ret () st"
  obtain r s1 where p: "?pre st = (r, s1)" by (cases "?pre st")
  have r: "r = Inr ()" and m: "os_mkdir [''tmp-jar-dir''] s1 = (Inr (), st')" and t: "tmpdir = [''tmp-jar-dir'']"
    using assms p
    by (cases r; cases "os_mkdir [''tmp-jar-dir''] s1"; cases "fst (os_mkdir [''tmp-jar-dir''] s1)";
        simp add: create_tmpdir_def Let_def seq_def bind_def ret_def)+
  have d: "is_dir (fs s1)" and f: "fs st' = put_at (fs s1) [''tmp-jar-dir''] (Dir [])"
    using m by (auto simp: os_mkdir_def isdir_def split: if_splits)
  have "node_at (fs st') [''tmp-jar-dir''] = Some (Dir [])"
    using d f node_at_put_same [of "[''tmp-jar-dir'']" "fs s1" "Dir []"] by (simp add: isdir_def)
  then show ?thesis using t d f by (simp add: isdir_def is_dir_put_at)
qed

lemma frame_compile_java_classes:
  "tmpdir = [] \<or> hd tmpdir = x \<Longrightarrow> frame x (compile_java_classes e tmpdir jj)"
  unfolding compile_java_classes_def Let_def
  by (intro frame_bind frame_seq frame_pure frame_fs_ops)

lemma frame_unzip_jython_jar:
  assumes "tmpdir = [] \<or> hd tmpdir = x"
  shows "frame x (unzip_jython_jar tmpdir jj)"
  using frame_put [OF assms]
  unfolding frame_def unzip_jython_jar_def
  by (auto split: option.splits node.splits)

lemma make_dirs_frame:
  "make_dirs t p = Some t' \<Longrightarrow>
   is_dir t' = is_dir t \<and>
   (q \<noteq> [] \<longrightarrow> p \<noteq> [] \<longrightarrow> hd q \<noteq> hd p \<longrightarrow> node_at t' q = node_at t q)"
  by (cases "(t, p)" rule: make_dirs.cases; cases q)
     (auto simp: update_conv' split: option.splits)

lemma frame_copytree:
  assumes "dst \<noteq> []" and "hd dst = x"
  shows "frame x (copytree src dst)"
proof -
  have "\<And>t t' v q. make_dirs t dst = Some t' \<Longrightarrow>
      is_dir (put_at t' dst v) = is_dir t \<and>
      (q \<noteq> [] \<longrightarrow> hd q \<noteq> x \<longrightarrow> node_at (put_at t' dst v) q = node_at t q)"
    using make_dirs_frame [of _ dst] frame_put [of dst x] assms by metis
  then show ?thesis
    unfolding frame_def copytree_def
    by (auto split: if_splits option.splits)
qed

lemma frame_copy_robot_files:
  "tmpdir \<noteq> [] \<Longrightarrow> hd tmpdir = x \<Longrightarrow> frame x (copy_robot_files tmpdir)"
  unfolding copy_robot_files_def Let_def
  by (intro frame_seq frame_copytree frame_fs_ops) simp_all

lemma frame_walk_remove_py:
  assumes "dir = [] \<or> hd dir = x"
  shows "frame x (walk_remove_py dir)"
  using frame_put [OF assms]
  unfolding frame_def walk_remove_py_def
  by (auto split: option.splits node.splits)

lemma frame_compile_all_py_files:
  "tmpdir \<noteq> [] \<Longrightarrow> hd tmpdir = x \<Longrightarrow> frame x (compile_all_py_files e tmpdir jj)"
  unfolding compile_all_py_files_def
  by (intro frame_seq frame_walk_remove_py frame_fs_ops) simp_all

lemma frame_overwrite_manifest:
  "tmpdir \<noteq> [] \<Longrightarrow> hd tmpdir = x \<Longrightarrow> frame x (overwrite_manifest tmpdir ver)"
  unfolding overwrite_manifest_def
  by (intro frame_fs_ops) simp

lemma except_seq_step:
  "m st = (Inr (), st') \<Longrightarrow>
   except_called_process_error (seq m k) msg st = except_called_process_error k msg st'"
  by (simp add: except_called_process_error_def seq_def bind_def)

lemma jar_after_tmpdir:
  assumes "get_jython_jar e st = (Inr jj, s1)"
    and "version_star e info (s1\<lparr>out := out s1 @ [''Using Jython '' @ abspath e jj]\<rparr>) = (Inr ver, s2)"
    and "create_tmpdir s2 = (Inr tmpdir, s3)"
    and "compile_java_classes e tmpdir jj s3 = (Inr (), s4)"
    and "unzip_jython_jar tmpdir jj s4 = (Inr (), s5)"
    and "copy_robot_files tmpdir s5 = (Inr (), s6)"
  shows "jar e info st =
     seq (except_called_process_error
            (seq (compile_all_py_files e tmpdir jj)
            (seq (overwrite_manifest tmpdir ver)
                 (except_called_process_error
                    (bind (create_jar_file e tmpdir ver) (\<lambda>jar_path.
                       print (''Created '' @ abspath e jar_path @ '' based on ''
                              @ abspath e jj)))
                    ''Unable to create jar! Check for jar command available at the command line.'')))
            ''Unable to compile java classes! Check for javac command available at the command line.'')
         (rmtree tmpdir) s6"
proof -
  have "jar e info st =
     seq (except_called_process_error
            (seq (compile_java_classes e tmpdir jj)
            (seq (unzip_jython_jar tmpdir jj)
            (seq (copy_robot_files tmpdir)
            (seq (compile_all_py_files e tmpdir jj)
            (seq (overwrite_manifest tmpdir ver)
                 (except_called_process_error
                    (bind (create_jar_file e tmpdir ver) (\<lambda>jar_path.
                       print (''Created '' @ abspath e jar_path @ '' based on ''
                              @ abspath e jj)))
                    ''Unable to create jar! Check for jar command available at the command line.''))))))
            ''Unable to compile java classes! Check for javac command available at the command line.'')
         (rmtree tmpdir) s3"
    using assms(1-3) by (simp add: jar_def bind_def seq_def print_def)
  then show ?thesis
    using assms(4-6)
    by (simp add: seq_def [of "except_called_process_error _ _"] bind_def [of "except_called_process_error _ _"]
        except_seq_step)
qed

lemma jar_frame_to_staging:
  assumes "get_jython_jar e st = (Inr jj, s1)"
    and "version_star e info (s1\<lparr>out := out s1 @ [''Using Jython '' @ abspath e jj]\<rparr>) = (Inr ver, s2)"
    and "create_tmpdir s2 = (Inr tmpdir, s3)"
    and "compile_java_classes e tmpdir jj s3 = (Inr (), s4)"
    and "unzip_jython_jar tmpdir jj s4 = (Inr (), s5)"
    and "copy_robot_files tmpdir s5 = (Inr (), s6)"
  shows "tmpdir = [''tmp-jar-dir''] \<and> is_dir (fs s6) \<and>
         node_at (fs s6) DIST_PATH = node_at (fs st) DIST_PATH"
proof -
  have t: "tmpdir = [''tmp-jar-dir'']" "is_dir (fs s3)"
    using create_tmpdir_result [OF assms(3)] by simp_all
  then have h: "tmpdir \<noteq> []" "hd tmpdir = ''tmp-jar-dir''" by simp_all
  have d: "DIST_PATH \<noteq> []" "hd DIST_PATH \<noteq> ''ext-lib''" "hd DIST_PATH \<noteq> ''src''"
    "hd DIST_PATH \<noteq> ''tmp-jar-dir''"
    by (simp_all add: DIST_PATH_def)
  have 1: "node_at (fs s1) DIST_PATH = node_at (fs st) DIST_PATH"
    using frameD [OF frame_get_jython_jar assms(1)] d by simp
  have 2: "node_at (fs s2) DIST_PATH = node_at (fs s1) DIST_PATH"
    using frameD [OF frame_version_star assms(2)] d by simp
  have 3: "node_at (fs s3) DIST_PATH = node_at (fs s2) DIST_PATH"
    using frameD [OF frame_create_tmpdir assms(3)] d by simp
  have 4: "node_at (fs s4) DIST_PATH = node_at (fs s3) DIST_PATH" "is_dir (fs s4)"
    using frameD [OF frame_compile_java_classes assms(4), of "''tmp-jar-dir''"] d h t by simp_all
  have 5: "node_at (fs s5) DIST_PATH = node_at (fs s4) DIST_PATH" "is_dir (fs s5)"
    using frameD [OF frame_unzip_jython_jar assms(5), of "''tmp-jar-dir''"] d h 4 by simp_all
  have 6: "node_at (fs s6) DIST_PATH = node_at (fs s5) DIST_PATH" "is_dir (fs s6)"
    using frameD [OF frame_copy_robot_files assms(6), of "''tmp-jar-dir''"] d h 5 by simp_all
  show ?thesis using t 1 2 3 4 5 6 by simp
qed

lemma run_compiler_failure:
  assumes "tool (entries_at (fs st) dir) = Exited rc es" and "rc \<noteq> 0"
  shows "run_compiler False tool dir st =
           (Inl (CalledProcessError rc), st\<lparr>fs := put_at (fs st) dir (Dir es)\<rparr>)"
  using assms by (simp add: run_compiler_def effect_of_def check_call_def)

text \<open>
  Claim C2.  Let a run of \<open>jar\<close> reach the bytecode compiler: the Jython archive is
  there, the version is resolved, the staging directory is created, the Java classes
  are compiled, the archive is extracted and the project files are copied.  When the
  bytecode compiler then exits with a non-zero code, \<open>jar\<close> returns normally, the
  staging directory does not exist afterwards, and the output directory \<open>dist\<close> is as it
  was before the call: no archive has been added.
\<close>

theorem recompile_failure_cleans_up:
  assumes "get_jython_jar e st = (Inr jj, s1)"
    and "version_star e info (s1\<lparr>out := out s1 @ [''Using Jython '' @ abspath e jj]\<rparr>) = (Inr ver, s2)"
    and "create_tmpdir s2 = (Inr tmpdir, s3)"
    and "compile_java_classes e tmpdir jj s3 = (Inr (), s4)"
    and "unzip_jython_jar tmpdir jj s4 = (Inr (), s5)"
    and "copy_robot_files tmpdir s5 = (Inr (), s6)"
    and "compileall e (entries_at (fs s6) tmpdir) = Exited rc es" and "rc \<noteq> 0"
  shows "fst (jar e info st) = Inr () \<and>
         \<not> exists (fs (snd (jar e info st))) tmpdir \<and>
         node_at (fs (snd (jar e info st))) DIST_PATH = node_at (fs st) DIST_PATH"
proof -
  let ?msg = "''Unable to compile java classes! Check for javac command available at the command line.''"
  let ?s7 = "s6\<lparr>fs := put_at (fs s6) tmpdir (Dir es)\<rparr>"
  let ?s8 = "?s7\<lparr>out := out s6 @ [?msg]\<rparr>"
  have st: "tmpdir = [''tmp-jar-dir'']" "is_dir (fs s6)"
    "node_at (fs s6) DIST_PATH = node_at (fs st) DIST_PATH"
    using jar_frame_to_staging [OF assms(1-6)] by simp_all
  have c: "compile_all_py_files e tmpdir jj s6 = (Inl (CalledProcessError rc), ?s7)"
    using run_compiler_failure [of "compileall e" s6 tmpdir rc es] assms(7,8)
    by (simp add: compile_all_py_files_def seq_def bind_def)
  have n: "node_at (put_at (fs s6) tmpdir (Dir es)) tmpdir = Some (Dir es)"
    using st(1,2) by (intro node_at_put_same) (simp_all add: isdir_def)
  then have r: "rmtree tmpdir ?s8 = (Inr (), ?s8\<lparr>fs := del_at (put_at (fs s6) tmpdir (Dir es)) tmpdir\<rparr>)"
    using st(1) by (simp add: rmtree_def isdir_def)
  have j: "jar e info st = (Inr (), ?s8\<lparr>fs := del_at (put_at (fs s6) tmpdir (Dir es)) tmpdir\<rparr>)"
    using c r
    by (simp add: jar_after_tmpdir [OF assms(1-6)] seq_def bind_def
        except_called_process_error_def print_def)
  have gone: "node_at (del_at (put_at (fs s6) tmpdir (Dir es)) tmpdir) tmpdir = None"
    using st(1) node_at_del_top [of _ "''tmp-jar-dir''" "[]"] by simp
  have dist: "node_at (del_at (put_at (fs s6) tmpdir (Dir es)) tmpdir) DIST_PATH =
              node_at (fs s6) DIST_PATH"
    using st(1) by (simp add: DIST_PATH_def node_at_del_other node_at_put_other)
  show ?thesis using j gone dist st(3) by (simp add: exists_def)
qed

text \<open>
  The hypotheses of C2 hold in the example project with a bytecode compiler that exits
  with code \<open>1\<close>.
\<close>

theorem recompile_failure_cleans_up_witness:
  "fst (jar failing_env [''2.8'', ''a1''] demo_state) = Inr () \<and>
   \<not> exists (fs (snd (jar failing_env [''2.8'', ''a1''] demo_state))) [''tmp-jar-dir''] \<and>
   node_at (fs (snd (jar failing_env [''2.8'', ''a1''] demo_state))) DIST_PATH =
     node_at (fs demo_state) DIST_PATH"
proof -
  let ?e = failing_env
  let ?jj = "[''ext-lib'', ''jython-standalone-2.5.3.jar'']"
  let ?tmp = "[''tmp-jar-dir'']"
  let ?s1 = "snd (get_jython_jar ?e demo_state)"
  let ?s2 = "snd (version_star ?e [''2.8'', ''a1'']
                    (?s1\<lparr>out := out ?s1 @ [''Using Jython '' @ abspath ?e ?jj]\<rparr>))"
  let ?s3 = "snd (create_tmpdir ?s2)"
  let ?s4 = "snd (compile_java_classes ?e ?tmp ?jj ?s3)"
  let ?s5 = "snd (unzip_jython_jar ?tmp ?jj ?s4)"
  let ?s6 = "snd (copy_robot_files ?tmp ?s5)"
  have 1: "get_jython_jar ?e demo_state = (Inr ?jj, ?s1)" by code_simp
  have 2: "version_star ?e [''2.8'', ''a1'']
             (?s1\<lparr>out := out ?s1 @ [''Using Jython '' @ abspath ?e ?jj]\<rparr>) = (Inr ''2.8a1'', ?s2)"
    by code_simp
  have 3: "create_tmpdir ?s2 = (Inr ?tmp, ?s3)" by code_simp
  have 4: "compile_java_classes ?e ?tmp ?jj ?s3 = (Inr (), ?s4)" by code_simp
  have 5: "unzip_jython_jar ?tmp ?jj ?s4 = (Inr (), ?s5)" by code_simp
  have 6: "copy_robot_files ?tmp ?s5 = (Inr (), ?s6)" by code_simp
  have 7: "compileall ?e (entries_at (fs ?s6) ?tmp) = Exited 1 (entries_at (fs ?s6) ?tmp)"
    by (simp add: failing_env_def)
  have 8: "(1::int) \<noteq> 0" by simp
  show ?thesis
    using recompile_failure_cleans_up [OF 1 2 3 4 5 6 7 8] by simp
qed

section \<open>The archive that \<open>jar\<close> builds\<close>

lemma import_version_again:
  assumes "import_version st = (Inr m, st')"
  shows "import_version st' = (Inr m, st')"
proof (cases "node_at (fs st) VERSION_PATH")
  case None
  then show ?thesis
    using assms by (auto simp: import_version_def split: option.splits node.splits)
next
  case (Some n)
  show ?thesis
  proof (cases n)
    case (VersionPy v r t)
    have vp: "node_at (fs st) VERSION_PATH = Some (VersionPy v r t)" using Some VersionPy by simp
    show ?thesis
    proof (cases "node_at (fs st) VERSION_PYC_PATH = Some (VersionPyc v r t)")
      case True
      then show ?thesis using assms vp by (simp add: import_version_def)
    next
      case False
      then have l: "literal_ok v" "literal_ok r" "literal_ok t"
        using assms vp by (auto simp: import_version_def split: if_splits)
      note i = import_version_stored [OF vp l]
      have s: "st' = snd (import_version st)" and m: "m = \<lparr>VERSION = v, RELEASE = r, TIMESTAMP = t\<rparr>"
        using assms i(1) by simp_all
      show ?thesis
        unfolding s m using i(4,6) l by (intro import_version_settled) simp_all
    qed
  qed (use assms Some in \<open>simp_all add: import_version_def\<close>)
qed

lemma version_result:
  assumes "version e v tag st = (Inr ver, st')"
  shows "\<exists>m. import_version st' = (Inr m, st') \<and>
             ver = (if RELEASE m = ''final'' then VERSION m else VERSION m @ RELEASE m)"
proof -
  let ?tail = "bind import_version (\<lambda>m. ret (get_version [] m))"
  have "\<exists>s. ?tail s = (Inr ver, st')"
    using assms
    by (auto simp: version_def seq_def bind_def [of _ "\<lambda>_. ?tail"] raise_def
        split: sum.splits prod.splits)
  then obtain s where s: "?tail s = (Inr ver, st')" by blast
  obtain r s1 where i: "import_version s = (r, s1)" by (cases "import_version s")
  then obtain m where m: "r = Inr m" "s1 = st'" "ver = get_version [] m"
    using s by (cases r) (auto simp: bind_def ret_def)
  have "import_version st' = (Inr m, st')"
    using import_version_again [of s m st'] i m by simp
  then show ?thesis using m(3) by (auto simp: get_version_def)
qed

lemma version_star_result:
  assumes "version_star e info st = (Inr ver, st')"
  shows "\<exists>m. import_version st' = (Inr m, st') \<and>
             ver = (if RELEASE m = ''final'' then VERSION m else VERSION m @ RELEASE m)"
proof -
  obtain v tag where "version e v tag st = (Inr ver, st')"
    using assms by (auto simp: version_star_def raise_def split: list.splits)
  then show ?thesis by (rule version_result)
qed

lemma overwrite_manifest_success:
  assumes "isdir (fs st) (tmpdir @ [''META-INF''])"
    and "\<not> isdir (fs st) (tmpdir @ [''META-INF'', ''MANIFEST.MF''])"
  shows "overwrite_manifest tmpdir ver st =
           (Inr (), st\<lparr>fs := put_at (fs st) (tmpdir @ [''META-INF'', ''MANIFEST.MF''])
                                (File (manifest ver))\<rparr>)"
    and "file_at (put_at (fs st) (tmpdir @ [''META-INF'', ''MANIFEST.MF'']) (File (manifest ver)))
           (tmpdir @ p) =
         (if p = [''META-INF'', ''MANIFEST.MF''] then Some (File (manifest ver))
          else file_at (fs st) (tmpdir @ p))"
    and "p \<noteq> [''META-INF'', ''MANIFEST.MF''] \<Longrightarrow>
         isdir (put_at (fs st) (tmpdir @ [''META-INF'', ''MANIFEST.MF'']) (File (manifest ver)))
           (tmpdir @ p) = isdir (fs st) (tmpdir @ p)"
proof -
  let ?mf = "tmpdir @ [''META-INF'', ''MANIFEST.MF'']"
  have b: "butlast ?mf = tmpdir @ [''META-INF'']" by (simp add: butlast_append)
  show "overwrite_manifest tmpdir ver st =
           (Inr (), st\<lparr>fs := put_at (fs st) ?mf (File (manifest ver))\<rparr>)"
    using assms b by (simp add: overwrite_manifest_def write_file_def)
  have same: "node_at (put_at (fs st) ?mf (File (manifest ver))) ?mf = Some (File (manifest ver))"
    using assms(1) b by (intro node_at_put_same) simp_all
  have other: "\<And>q. q \<noteq> ?mf \<Longrightarrow>
      file_at (put_at (fs st) ?mf (File (manifest ver))) q = file_at (fs st) q \<and>
      isdir (put_at (fs st) ?mf (File (manifest ver))) q = isdir (fs st) q"
    using assms(2) by (intro put_leaf_other) simp_all
  show "file_at (put_at (fs st) ?mf (File (manifest ver))) (tmpdir @ p) =
         (if p = [''META-INF'', ''MANIFEST.MF''] then Some (File (manifest ver))
          else file_at (fs st) (tmpdir @ p))"
    using same other [of "tmpdir @ p"] by (simp add: file_at_def)
  show "p \<noteq> [''META-INF'', ''MANIFEST.MF''] \<Longrightarrow>
         isdir (put_at (fs st) ?mf (File (manifest ver))) (tmpdir @ p) = isdir (fs st) (tmpdir @ p)"
    using other [of "tmpdir @ p"] by simp
qed

lemma create_jar_file_success:
  assumes "jar_tool e = (\<lambda>x. Exited 0 (Some (Zip x)))"
    and "\<not> exists (fs st) DIST_PATH \<or> isdir (fs st) DIST_PATH"
    and "is_dir (fs st)"
    and "node_at (fs st) [''tmp-jar-dir''] = Some (Dir ms)"
  shows "\<exists>st'. create_jar_file e [''tmp-jar-dir''] ver st =
                  (Inr (DIST_PATH @ [''robotframework-'' @ ver @ ''.jar'']), st') \<and>
               node_at (fs st') (DIST_PATH @ [''robotframework-'' @ ver @ ''.jar'']) = Some (Zip ms) \<and>
               isdir (fs st') [''tmp-jar-dir'']"
proof -
  let ?tmp = "[''tmp-jar-dir'']"
  let ?path = "DIST_PATH @ [''robotframework-'' @ ver @ ''.jar'']"
  let ?pre = "\<lambda>st. if \<not> exists (fs st) DIST_PATH then os_mkdir DIST_PATH st else ret () st"
  let ?s1 = "if \<not> exists (fs st) DIST_PATH then st\<lparr>fs := put_at (fs st) DIST_PATH (Dir [])\<rparr> else st"
  have pre: "?pre st = (Inr (), ?s1)"
    using assms(3) by (simp add: os_mkdir_def ret_def DIST_PATH_def isdir_def)
  have d: "isdir (fs ?s1) DIST_PATH"
  proof (cases "exists (fs st) DIST_PATH")
    case True
    then show ?thesis using assms(2) by simp
  next
    case False
    have "node_at (put_at (fs st) DIST_PATH (Dir [])) DIST_PATH = Some (Dir [])"
      using assms(3) by (intro node_at_put_same) (simp_all add: DIST_PATH_def isdir_def)
    then show ?thesis using False by (simp add: isdir_def)
  qed
  have t: "node_at (fs ?s1) ?tmp = Some (Dir ms)"
    using assms(4) by (simp add: node_at_put_other DIST_PATH_def)
  let ?s2 = "?s1\<lparr>fs := put_at (fs ?s1) ?path (Zip ms)\<rparr>"
  have f: "fill_jar e ?tmp ?path ?s1 = (Inr (), ?s2)"
    using t assms(1)
    by (simp add: fill_jar_def entries_at_def effect_of_def check_call_def Let_def)
  have c: "create_jar_file e ?tmp ver st = (Inr ?path, ?s2)"
    using pre f by (simp add: create_jar_file_def Let_def seq_def bind_def ret_def)
  have n: "node_at (fs ?s2) ?path = Some (Zip ms)"
    using d by (simp add: node_at_put_same butlast_append)
  have "node_at (fs ?s2) ?tmp = Some (Dir ms)"
    using t by (simp add: node_at_put_other DIST_PATH_def)
  then have "isdir (fs ?s2) ?tmp" by (simp add: isdir_def)
  then show ?thesis using c n by blast
qed

lemma jar_success:
  assumes "get_jython_jar e st = (Inr jj, s1)"
    and "version_star e info (s1\<lparr>out := out s1 @ [''Using Jython '' @ abspath e jj]\<rparr>) = (Inr ver, s2)"
    and "create_tmpdir s2 = (Inr tmpdir, s3)"
    and "compile_java_classes e tmpdir jj s3 = (Inr (), s4)"
    and "unzip_jython_jar tmpdir jj s4 = (Inr (), s5)"
    and "copy_robot_files tmpdir s5 = (Inr (), s6)"
    and "compileall e (entries_at (fs s6) tmpdir) = Exited 0 es"
    and "wf_node (Dir es)"
    and "isdir (Dir es) [''META-INF'']"
    and "\<not> isdir (Dir es) [''META-INF'', ''MANIFEST.MF'']"
    and "jar_tool e = (\<lambda>x. Exited 0 (Some (Zip x)))"
    and "\<not> exists (fs st) DIST_PATH \<or> isdir (fs st) DIST_PATH"
  shows "fst (jar e info st) = Inr ()"
    and "member_file_at (fs (snd (jar e info st))) (DIST_PATH @ [''robotframework-'' @ ver @ ''.jar'']) p =
           (if p = [''META-INF'', ''MANIFEST.MF''] then Some (File (manifest ver))
            else if prefix [''Lib'', ''robot''] p \<and> endswith (last p) ''.py'' then None
            else file_at (Dir es) p)"
proof -
  let ?tmp = "[''tmp-jar-dir'']"
  let ?mf = "[''META-INF'', ''MANIFEST.MF'']"
  let ?path = "DIST_PATH @ [''robotframework-'' @ ver @ ''.jar'']"
  let ?msg1 = "''Unable to compile java classes! Check for javac command available at the command line.''"
  let ?msg2 = "''Unable to create jar! Check for jar command available at the command line.''"
  have st: "tmpdir = ?tmp" "is_dir (fs s6)"
    "node_at (fs s6) DIST_PATH = node_at (fs st) DIST_PATH"
    using jar_frame_to_staging [OF assms(1-6)] by simp_all
  have bl: "isdir (fs s6) (butlast tmpdir)" using st(1,2) by (simp add: isdir_def)
  have ne: "tmpdir \<noteq> []" using st(1) by simp

  obtain s7 where c: "compile_all_py_files e tmpdir jj s6 = (Inr (), s7)"
    using compile_all_py_files_success(1) [OF assms(7,8) bl ne, of jj]
    by (cases "compile_all_py_files e tmpdir jj s6") simp
  then have s7: "s7 = snd (compile_all_py_files e tmpdir jj s6)" by simp
  have f7: "\<And>q. file_at (fs s7) (tmpdir @ q) =
           (if prefix [''Lib'', ''robot''] q \<and> endswith (last q) ''.py'' then None
            else file_at (Dir es) q)"
    unfolding s7 by (rule compile_all_py_files_success(2) [OF assms(7,8) bl ne])
  have d7: "\<And>q. \<not> prefix [''Lib'', ''robot''] q \<Longrightarrow> isdir (fs s7) (tmpdir @ q) = isdir (Dir es) q"
    unfolding s7 by (rule compile_all_py_files_success(3) [OF assms(7,8) bl ne])
  have fr7: "is_dir (fs s7)" "node_at (fs s7) DIST_PATH = node_at (fs s6) DIST_PATH"
    using frameD [OF frame_compile_all_py_files c, of "''tmp-jar-dir''" DIST_PATH] st(1,2)
    by (simp_all add: DIST_PATH_def)
  have m1: "isdir (fs s7) (tmpdir @ [''META-INF''])" using d7 [of "[''META-INF'']"] assms(9) by simp
  have m2: "\<not> isdir (fs s7) (tmpdir @ ?mf)" using d7 [of ?mf] assms(10) by simp
  have m3: "isdir (fs s7) tmpdir" using d7 [of "[]"] by (simp add: isdir_def)

  let ?s8 = "s7\<lparr>fs := put_at (fs s7) (tmpdir @ ?mf) (File (manifest ver))\<rparr>"
  note om = overwrite_manifest_success [OF m1 m2, where ver=ver]
  have o: "overwrite_manifest tmpdir ver s7 = (Inr (), ?s8)" by (rule om(1))
  have f8: "\<And>q. file_at (fs ?s8) (tmpdir @ q) =
         (if q = ?mf then Some (File (manifest ver)) else file_at (fs s7) (tmpdir @ q))"
    using om(2) by simp
  have d8: "isdir (fs ?s8) tmpdir" using om(3) [of "[]"] m3 by simp
  have fr8: "is_dir (fs ?s8)" "node_at (fs ?s8) DIST_PATH = node_at (fs st) DIST_PATH"
    using frameD [OF frame_overwrite_manifest o, of "''tmp-jar-dir''" DIST_PATH] st(1,3) fr7
    by (simp_all add: DIST_PATH_def)
  obtain ms where ms: "node_at (fs ?s8) ?tmp = Some (Dir ms)"
    using d8 st(1)
    by (cases "node_at (fs ?s8) ?tmp"; cases "the (node_at (fs ?s8) ?tmp)")
       (auto simp: isdir_def)
  have fm: "\<And>q. file_at (Dir ms) q = file_at (fs ?s8) (tmpdir @ q)"
    using ms st(1) by (simp only: file_at_append option.case)
  have dist: "\<not> exists (fs ?s8) DIST_PATH \<or> isdir (fs ?s8) DIST_PATH"
    using assms(12) fr8(2) by (simp add: exists_def isdir_def)
  obtain s9 where j: "create_jar_file e ?tmp ver ?s8 = (Inr ?path, s9)"
    and n9: "node_at (fs s9) ?path = Some (Zip ms)" and d9: "isdir (fs s9) ?tmp"
    using create_jar_file_success [OF assms(11) dist fr8(1) ms, where ver=ver] by blast
  let ?s10 = "s9\<lparr>out := out s9 @ [''Created '' @ abspath e ?path @ '' based on '' @ abspath e jj]\<rparr>"
  have inner: "except_called_process_error
                    (bind (create_jar_file e tmpdir ver) (\<lambda>jar_path.
                       print (''Created '' @ abspath e jar_path @ '' based on ''
                              @ abspath e jj))) ?msg2 ?s8 = (Inr (), ?s10)"
    using j st(1) by (simp add: except_called_process_error_def bind_def print_def)
  have r: "rmtree tmpdir ?s10 = (Inr (), ?s10\<lparr>fs := del_at (fs s9) ?tmp\<rparr>)"
    using d9 st(1) by (simp add: rmtree_def)
  have res: "jar e info st = (Inr (), ?s10\<lparr>fs := del_at (fs s9) ?tmp\<rparr>)"
    using c o inner r
    by (simp add: jar_after_tmpdir [OF assms(1-6)] seq_def bind_def
        except_called_process_error_def)
  show "fst (jar e info st) = Inr ()" using res by simp
  have "node_at (del_at (fs s9) ?tmp) ?path = Some (Zip ms)"
    using n9 by (simp add: node_at_del_other DIST_PATH_def)
  then have "member_file_at (fs (snd (jar e info st))) ?path p = file_at (Dir ms) p"
    using res by (simp add: member_file_at_def)
  then show "member_file_at (fs (snd (jar e info st))) ?path p =
           (if p = ?mf then Some (File (manifest ver))
            else if prefix [''Lib'', ''robot''] p \<and> endswith (last p) ''.py'' then None
            else file_at (Dir es) p)"
    using fm [of p] f8 [of p] f7 [of p] by simp
qed

lemma demo_jar_stages:
  defines "jj \<equiv> [''ext-lib'', ''jython-standalone-2.5.3.jar'']"
    and "tmp \<equiv> [''tmp-jar-dir'']"
  defines "s1 \<equiv> snd (get_jython_jar demo_env demo_state)"
  defines "s2 \<equiv> snd (version_star demo_env [''2.8'', ''a1'']
                    (s1\<lparr>out := out s1 @ [''Using Jython '' @ abspath demo_env jj]\<rparr>))"
  defines "s3 \<equiv> snd (create_tmpdir s2)"
  defines "s4 \<equiv> snd (compile_java_classes demo_env tmp jj s3)"
  defines "s5 \<equiv> snd (unzip_jython_jar tmp jj s4)"
  defines "s6 \<equiv> snd (copy_robot_files tmp s5)"
  defines "es \<equiv> add_classes (entries_at (fs s6) tmp)"
  shows "get_jython_jar demo_env demo_state = (Inr jj, s1)"
    and "version_star demo_env [''2.8'', ''a1'']
           (s1\<lparr>out := out s1 @ [''Using Jython '' @ abspath demo_env jj]\<rparr>) = (Inr ''2.8a1'', s2)"
    and "create_tmpdir s2 = (Inr tmp, s3)"
    and "compile_java_classes demo_env tmp jj s3 = (Inr (), s4)"
    and "unzip_jython_jar tmp jj s4 = (Inr (), s5)"
    and "copy_robot_files tmp s5 = (Inr (), s6)"
    and "compileall demo_env (entries_at (fs s6) tmp) = Exited 0 es"
    and "wf_node (Dir es)"
    and "isdir (Dir es) [''META-INF'']"
    and "\<not> isdir (Dir es) [''META-INF'', ''MANIFEST.MF'']"
    and "jar_tool demo_env = (\<lambda>x. Exited 0 (Some (Zip x)))"
    and "\<not> exists (fs demo_state) DIST_PATH \<or> isdir (fs demo_state) DIST_PATH"
    and "file_at (Dir es) [''Lib'', ''os.py''] = Some (File ''os'')"
proof -
  show "get_jython_jar demo_env demo_state = (Inr jj, s1)"
    unfolding assms by code_simp
  show "version_star demo_env [''2.8'', ''a1'']
           (s1\<lparr>out := out s1 @ [''Using Jython '' @ abspath demo_env jj]\<rparr>) = (Inr ''2.8a1'', s2)"
    unfolding assms by code_simp
  show "create_tmpdir s2 = (Inr tmp, s3)" unfolding assms by code_simp
  show "compile_java_classes demo_env tmp jj s3 = (Inr (), s4)" unfolding assms by code_simp
  show "unzip_jython_jar tmp jj s4 = (Inr (), s5)" unfolding assms by code_simp
  show "copy_robot_files tmp s5 = (Inr (), s6)" unfolding assms by code_simp
  show "compileall demo_env (entries_at (fs s6) tmp) = Exited 0 es"
    unfolding es_def by (simp add: demo_env_def)
  show "wf_node (Dir es)" unfolding assms by code_simp
  show "isdir (Dir es) [''META-INF'']" unfolding assms by code_simp
  show "\<not> isdir (Dir es) [''META-INF'', ''MANIFEST.MF'']" unfolding assms by code_simp
  show "jar_tool demo_env = (\<lambda>x. Exited 0 (Some (Zip x)))" by (simp add: demo_env_def)
  show "\<not> exists (fs demo_state) DIST_PATH \<or> isdir (fs demo_state) DIST_PATH" by code_simp
  show "file_at (Dir es) [''Lib'', ''os.py''] = Some (File ''os'')" unfolding assms by code_simp
qed

text \<open>
  Claim C1, as amended.  Let a run of \<open>jar\<close> reach the bytecode compiler, let the
  compiler succeed and leave the well-formed contents \<open>es\<close> in the staging directory,
  with a directory \<open>META-INF\<close>, and let the archiver store what it is given.  Then
  \<open>jar\<close> returns normally, and the files of the archive
  \<open>dist/robotframework-<version>.jar\<close> are those of \<open>es\<close> with two changes: the files
  below \<open>Lib/robot\<close> whose name ends with \<open>.py\<close>, the project's own sources, are absent,
  and \<open>META-INF/MANIFEST.MF\<close> is the manifest that the script writes.  Every other
  file, the sources of the bundled runtime among them, is in the archive as the
  compiler left it.
\<close>

theorem jar_omits_project_sources:
  assumes "get_jython_jar e st = (Inr jj, s1)"
    and "version_star e info (s1\<lparr>out := out s1 @ [''Using Jython '' @ abspath e jj]\<rparr>) = (Inr ver, s2)"
    and "create_tmpdir s2 = (Inr tmpdir, s3)"
    and "compile_java_classes e tmpdir jj s3 = (Inr (), s4)"
    and "unzip_jython_jar tmpdir jj s4 = (Inr (), s5)"
    and "copy_robot_files tmpdir s5 = (Inr (), s6)"
    and "compileall e (entries_at (fs s6) tmpdir) = Exited 0 es"
    and "wf_node (Dir es)"
    and "isdir (Dir es) [''META-INF'']"
    and "\<not> isdir (Dir es) [''META-INF'', ''MANIFEST.MF'']"
    and "jar_tool e = (\<lambda>x. Exited 0 (Some (Zip x)))"
    and "\<not> exists (fs st) DIST_PATH \<or> isdir (fs st) DIST_PATH"
  shows "fst (jar e info st) = Inr () \<and>
         member_file_at (fs (snd (jar e info st))) (DIST_PATH @ [''robotframework-'' @ ver @ ''.jar'']) p =
           (if p = [''META-INF'', ''MANIFEST.MF''] then Some (File (manifest ver))
            else if prefix [''Lib'', ''robot''] p \<and> endswith (last p) ''.py'' then None
            else file_at (Dir es) p)"
  using jar_success(1) [OF assms] jar_success(2) [OF assms, where p=p] by simp

text \<open>
  The hypotheses of C1 as amended hold in the example project: the archive holds the
  runtime's \<open>Lib/os.py\<close> and not the project's \<open>Lib/robot/run.py\<close>.
\<close>

theorem jar_omits_project_sources_witness:
  "fst (jar demo_env [''2.8'', ''a1''] demo_state) = Inr () \<and>
   member_file_at (fs (snd (jar demo_env [''2.8'', ''a1''] demo_state)))
     [''dist'', ''robotframework-2.8a1.jar''] [''Lib'', ''os.py''] = Some (File ''os'') \<and>
   member_file_at (fs (snd (jar demo_env [''2.8'', ''a1''] demo_state)))
     [''dist'', ''robotframework-2.8a1.jar''] [''Lib'', ''robot'', ''run.py''] = None"
proof -
  have py: "endswith ''run.py'' ''.py''" by code_simp
  show ?thesis
    using jar_omits_project_sources [OF demo_jar_stages(1-12), of "[''Lib'', ''os.py'']"]
      jar_omits_project_sources [OF demo_jar_stages(1-12), of "[''Lib'', ''robot'', ''run.py'']"]
      demo_jar_stages(13) py
    by (simp add: DIST_PATH_def)
qed

text \<open>
  Claim C1 as stated fails.  In the archive that \<open>jar\<close> builds for the example
  project, the runtime's source \<open>Lib/os.py\<close> is present next to its compiled
  \<open>Lib/os$py.class\<close>, and the project's source \<open>run.py\<close> is absent from \<open>Lib/robot\<close>.
\<close>

theorem project_sources_removed_counterexample:
  "member_at (fs (snd (main demo_env [''jar'', ''2.8'', ''a1''] demo_state)))
     [''dist'', ''robotframework-2.8a1.jar''] [''Lib'', ''os.py''] = Some (File ''os'') \<and>
   member_at (fs (snd (main demo_env [''jar'', ''2.8'', ''a1''] demo_state)))
     [''dist'', ''robotframework-2.8a1.jar''] [''Lib'', ''os$py.class''] = Some (File ''class'') \<and>
   node_at (fs demo_state) [''src'', ''robot'', ''run.py''] = Some (File ''run'') \<and>
   member_at (fs (snd (main demo_env [''jar'', ''2.8'', ''a1''] demo_state)))
     [''dist'', ''robotframework-2.8a1.jar''] [''Lib'', ''robot'', ''run.py''] = None"
  by code_simp

text \<open>
  Claim C10.  The string that the version resolver returns is made of the values that
  the version module holds after the call, with nothing between them: \<open>VERSION\<close> when
  \<open>RELEASE\<close> is \<open>final\<close>, and \<open>VERSION\<close> directly followed by \<open>RELEASE\<close> otherwise.  In
  a successful run of \<open>jar\<close> the same string is in the name of the archive,
  \<open>dist/robotframework-<string>.jar\<close>, and in the line \<open>Implementation-Version\<close> of the
  manifest that the archive holds.
\<close>

theorem jar_carries_version_string:
  assumes "get_jython_jar e st = (Inr jj, s1)"
    and "version_star e info (s1\<lparr>out := out s1 @ [''Using Jython '' @ abspath e jj]\<rparr>) = (Inr ver, s2)"
    and "create_tmpdir s2 = (Inr tmpdir, s3)"
    and "compile_java_classes e tmpdir jj s3 = (Inr (), s4)"
    and "unzip_jython_jar tmpdir jj s4 = (Inr (), s5)"
    and "copy_robot_files tmpdir s5 = (Inr (), s6)"
    and "compileall e (entries_at (fs s6) tmpdir) = Exited 0 es"
    and "wf_node (Dir es)"
    and "isdir (Dir es) [''META-INF'']"
    and "\<not> isdir (Dir es) [''META-INF'', ''MANIFEST.MF'']"
    and "jar_tool e = (\<lambda>x. Exited 0 (Some (Zip x)))"
    and "\<not> exists (fs st) DIST_PATH \<or> isdir (fs st) DIST_PATH"
  shows "(\<exists>m. import_version s2 = (Inr m, s2) \<and>
              ver = (if RELEASE m = ''final'' then VERSION m else VERSION m @ RELEASE m)) \<and>
         fst (jar e info st) = Inr () \<and>
         member_file_at (fs (snd (jar e info st))) (DIST_PATH @ [''robotframework-'' @ ver @ ''.jar''])
             [''META-INF'', ''MANIFEST.MF''] =
           Some (File (''Manifest-Version: 1.0'' @ [CHR 0x0A] @
                       ''Main-Class: org.robotframework.RobotFramework'' @ [CHR 0x0A] @
                       ''Specification-Version: 2'' @ [CHR 0x0A] @
                       ''Implementation-Version: '' @ ver @ [CHR 0x0A]))"
  using version_star_result [OF assms(2)] jar_success(1) [OF assms]
    jar_success(2) [OF assms, where p="[''META-INF'', ''MANIFEST.MF'']"]
  by (simp add: manifest_def)

text \<open>
  The hypotheses of C10 hold in the example project, built as version \<open>2.8\<close> with the
  release tag \<open>a1\<close>: the resolver returns \<open>2.8a1\<close>, the archive is
  \<open>dist/robotframework-2.8a1.jar\<close>, and its manifest ends with the line
  \<open>Implementation-Version: 2.8a1\<close>.
\<close>

theorem jar_carries_version_string_witness:
  "fst (version_star demo_env [''2.8'', ''a1'']
          ((snd (get_jython_jar demo_env demo_state))
             \<lparr>out := out (snd (get_jython_jar demo_env demo_state)) @
                [''Using Jython '' @ abspath demo_env [''ext-lib'', ''jython-standalone-2.5.3.jar'']]\<rparr>))
     = Inr ''2.8a1'' \<and>
   fst (jar demo_env [''2.8'', ''a1''] demo_state) = Inr () \<and>
   member_file_at (fs (snd (jar demo_env [''2.8'', ''a1''] demo_state)))
       [''dist'', ''robotframework-2.8a1.jar''] [''META-INF'', ''MANIFEST.MF''] =
     Some (File (''Manifest-Version: 1.0'' @ [CHR 0x0A] @
                 ''Main-Class: org.robotframework.RobotFramework'' @ [CHR 0x0A] @
                 ''Specification-Version: 2'' @ [CHR 0x0A] @
                 ''Implementation-Version: 2.8a1'' @ [CHR 0x0A]))"
proof -
  have v: "fst (version_star demo_env [''2.8'', ''a1'']
          ((snd (get_jython_jar demo_env demo_state))
             \<lparr>out := out (snd (get_jython_jar demo_env demo_state)) @
                [''Using Jython '' @ abspath demo_env [''ext-lib'', ''jython-standalone-2.5.3.jar'']]\<rparr>))
     = Inr ''2.8a1''"
    using arg_cong [OF demo_jar_stages(2), of fst] by (simp only: fst_conv)
  show ?thesis
    using jar_carries_version_string [OF demo_jar_stages(1-12)] v
    by (simp add: DIST_PATH_def)
qed

end
